theory Spec2Isabelle
  imports Main
begin

section \<open>The environment store and errors\<close>

text \<open>
  \<^verbatim>\<open>process.env\<close> is a mapping from variable names to string values; a variable that is
  not set reads as \<^verbatim>\<open>undefined\<close>, which is \<open>None\<close> here. \<^verbatim>\<open>core.exportVariable(name, v)\<close>
  stores \<open>v\<close> under \<open>name\<close> for this process and for the later steps of the job.
\<close>

type_synonym env = "string \<rightharpoonup> string"

text \<open>
  What the server answers to a request: the HTTP status (\<open>None\<close> when the transport fails and
  there is no answer), the header \<^verbatim>\<open>x-github-request-id\<close> and the serialised body. A
  response of the API client, as the code reads it (\<^verbatim>\<open>response.status\<close>,
  \<^verbatim>\<open>response.headers["x-github-request-id"]\<close>, \<^verbatim>\<open>response.data\<close>), has the same parts.
\<close>

record response =
  status :: "int option"
  x_github_request_id :: "string option"
  data :: string

text \<open>
  Every \<^verbatim>\<open>throw\<close> of the source is a value. \<open>Error m\<close> is \<^verbatim>\<open>new Error(m)\<close>; \<open>Thrown m\<close> is
  \<^verbatim>\<open>throw m\<close> of a plain string (as \<^verbatim>\<open>combineSarifFiles\<close> does); \<open>ReadError p\<close> is a failure of
  \<^verbatim>\<open>JSON.parse(fs.readFileSync(p))\<close>; \<open>ApiError\<close> is a rejected request of the workflow
  lookup; \<open>RequestError r\<close> is the error with which the API client rejects a request that the
  server answered with \<open>r\<close>. The two \<^verbatim>\<open>throw new Error('Upload failed (' + requestID + '): (' +
  statusCode + ') ' + JSON.stringify(response.data))\<close> statements of \<^verbatim>\<open>uploadPayload\<close> build the
  same message from the request id, the status code and the response body; the model keeps
  these three parts and records which statement threw: \<open>UploadFailed\<close> for the one taken on
  a status that is not 5xx, \<open>UploadFailedAfterRetries\<close> for the one taken on a 5xx status
  when no attempt is left.
\<close>

datatype error =
    Error string
  | Thrown string
  | ReadError string
  | ApiError
  | RequestError response
  | UploadFailed "string option" "int option" string
  | UploadFailedAfterRetries "string option" "int option" string

text \<open>
  \<^verbatim>\<open>api.getApiClient().request(...)\<close>. The client is built in \<^verbatim>\<open>api-client\<close> as
  \<^verbatim>\<open>new github.GitHub(...)\<close>, with no hook and no plugin that would change how a request
  ends. The promise of its \<^verbatim>\<open>request\<close> is fulfilled with the response only for a status
  below 400 other than 304; for every other status, and when the transport fails, it is
  rejected, and an \<^verbatim>\<open>await\<close> outside a \<^verbatim>\<open>try\<close> throws the rejection.
\<close>

definition request :: "response \<Rightarrow> error + response" where
  "request answer =
     (case response.status answer of
        None \<Rightarrow> Inl (RequestError answer)
      | Some st \<Rightarrow> if st = 304 \<or> st \<ge> 400 then Inl (RequestError answer) else Inr answer)"

text \<open>JavaScript truthiness of an environment value: set and not the empty string.\<close>

definition truthy :: "string option \<Rightarrow> bool" where
  "truthy v = (case v of None \<Rightarrow> False | Some s \<Rightarrow> s \<noteq> [])"

definition getRequiredEnvParam :: "env \<Rightarrow> string \<Rightarrow> error + string" where
  "getRequiredEnvParam env paramName =
     (case env paramName of
        None \<Rightarrow> Inl (Error (paramName @ '' environment variable must be set''))
      | Some v \<Rightarrow>
          if length v = 0 then Inl (Error (paramName @ '' environment variable must be set''))
          else Inr v)"

text \<open>\<^verbatim>\<open>s.split("/")\<close>: the pieces between the separators; never an empty array.\<close>

fun split :: "char \<Rightarrow> string \<Rightarrow> string list" where
  "split c [] = [[]]"
| "split c (x # xs) =
     (if x = c then [] # split c xs
      else (case split c xs of [] \<Rightarrow> [[x]] | p # ps \<Rightarrow> (x # p) # ps))"

section \<open>Documents\<close>

text \<open>
  A parsed result file (\<^verbatim>\<open>sarifObject\<close>) has the shape of the ResultDocument: a \<^verbatim>\<open>version\<close>
  string and an array of \<^verbatim>\<open>runs\<close>, each with an array of \<^verbatim>\<open>results\<close>. The fields that
  \<^verbatim>\<open>getToolNames\<close> guards against absence (\<^verbatim>\<open>run.tool || {}\<close>, \<^verbatim>\<open>tool.driver || {}\<close>,
  \<^verbatim>\<open>typeof driver.name === "string"\<close>) are optional: \<open>None\<close> is an absent field, and for
  \<open>name\<close> also a value that is not a string. A result is kept as an opaque string.
\<close>

record driver =
  name :: "string option"

record tool =
  driver :: "driver option"

record run =
  tool :: "tool option"
  results :: "string list"

record sarifObject =
  version :: string
  runs :: "run list"

text \<open>
  The object that \<^verbatim>\<open>combineSarifFiles\<close> builds starts as \<^verbatim>\<open>{ version: null, runs: [] }\<close>;
  \<open>None\<close> is \<^verbatim>\<open>null\<close>. The serialised document (\<^verbatim>\<open>JSON.stringify\<close>, read back by
  \<^verbatim>\<open>JSON.parse\<close> in \<^verbatim>\<open>getToolNames\<close> and \<^verbatim>\<open>countResultsInSarif\<close>) is identified with
  the document.
\<close>

record combinedSarif =
  version :: "string option"
  runs :: "run list"

section \<open>Payload, reports and events\<close>

record payload =
  commit_oid :: string
  ref :: string
  analysis_key :: string
  analysis_name :: string
  sarif :: string
  workflow_run_id :: int
  checkout_uri :: string
  environment :: "string option"
  started_at :: "string option"
  tool_names :: "string list"

record UploadStatusReport =
  raw_upload_size_bytes :: nat
  zipped_upload_size_bytes :: nat
  num_results_in_sarif :: nat

datatype ActionStatus = starting | success | failure | aborted

text \<open>A \<^verbatim>\<open>Date\<close> is identified with its ISO-8601 string.\<close>

datatype date = Date (toISOString: string)

text \<open>\<open>workflow_run_id\<close> is the result of \<^verbatim>\<open>parseInt\<close>, where \<open>None\<close> is \<^verbatim>\<open>NaN\<close>.\<close>

record StatusReport =
  workflow_run_id :: "int option"
  workflow_name :: string
  job_name :: string
  analysis_key :: string
  commit_oid :: string
  ref :: string
  action_name :: string
  action_oid :: string
  started_at :: string
  action_started_at :: string
  status :: ActionStatus
  cause :: "string option"
  exception :: "string option"
  completed_at :: "string option"
  matrix_vars :: "string option"

text \<open>
  What the pipeline does to the outside world, in order: variables exported to the store,
  the pipeline phases, the lookup of the workflow path, each \<^verbatim>\<open>PUT\<close> of the analysis (attempt
  index, owner, repository, payload), each sleep (in milliseconds, the argument of
  \<^verbatim>\<open>setTimeout\<close>), each \<^verbatim>\<open>PUT\<close> of a status report and each \<^verbatim>\<open>core.setFailed\<close>. Logging
  (\<^verbatim>\<open>core.info\<close>, \<^verbatim>\<open>core.debug\<close>, \<^verbatim>\<open>core.warning\<close>, groups) is left out.
\<close>

datatype event =
    ExportVariable string string
  | ValidateSarifFileSchema string
  | CombineSarifFiles "string list"
  | AddFingerprints
  | GetWorkflowPath
  | PutAnalysis nat string "string option" payload
  | Sleep nat
  | PutStatus string "string option" StatusReport
  | SetFailed string

text \<open>
  The collaborators outside this code: the file system with \<^verbatim>\<open>JSON.parse\<close> (\<open>None\<close> when
  reading or parsing throws), the schema validator (the \<^verbatim>\<open>stack\<close> of each error), the
  fingerprinter, serialisation and compression, \<^verbatim>\<open>git rev-parse HEAD\<close> (the trimmed output,
  \<open>None\<close> when it fails), the two requests that give the workflow path (\<open>None\<close> when one is
  rejected), \<^verbatim>\<open>core.getInput\<close>, \<^verbatim>\<open>fileUrl\<close>, \<^verbatim>\<open>parseInt(s, 10)\<close> (\<open>None\<close> is \<^verbatim>\<open>NaN\<close>), the
  clock, and the two servers: what the analysis endpoint answers to the request of each
  attempt, and what the status endpoint answers to a report.
\<close>

record world =
  readSarif :: "string \<Rightarrow> sarifObject option"
  schemaErrors :: "sarifObject \<Rightarrow> string list"
  addFingerprints :: "combinedSarif \<Rightarrow> combinedSarif"
  stringify :: "combinedSarif \<Rightarrow> string"
  gzipBase64 :: "string \<Rightarrow> string"
  gitRevParseHead :: "string option"
  workflowPath :: "string \<Rightarrow> string option \<Rightarrow> string \<Rightarrow> string option"
  getInput :: "string \<Rightarrow> string"
  fileUrl :: "string \<Rightarrow> string"
  parseInt :: "string \<Rightarrow> int option"
  now :: date
  analysisEndpoint :: "nat \<Rightarrow> response"
  statusEndpoint :: "StatusReport \<Rightarrow> response"

section \<open>State and sequencing\<close>

text \<open>
  The state that the code changes: the environment store and the trace of events. An action
  takes the state and returns a value or the error thrown, with the state it left.
\<close>

record state =
  processEnv :: env
  trace :: "event list"

type_synonym 'a action = "state \<Rightarrow> (error + 'a) \<times> state"

definition ret :: "'a \<Rightarrow> 'a action" where
  "ret x = (\<lambda>s. (Inr x, s))"

definition throw :: "error \<Rightarrow> 'a action" where
  "throw e = (\<lambda>s. (Inl e, s))"

definition andThen :: "'a action \<Rightarrow> ('a \<Rightarrow> 'b action) \<Rightarrow> 'b action" where
  "andThen m f = (\<lambda>s. case m s of (Inl e, s') \<Rightarrow> (Inl e, s') | (Inr x, s') \<Rightarrow> f x s')"

definition fromEnv :: "(env \<Rightarrow> error + 'a) \<Rightarrow> 'a action" where
  "fromEnv f = (\<lambda>s. (f (processEnv s), s))"

definition emit :: "event \<Rightarrow> unit action" where
  "emit ev = (\<lambda>s. (Inr (), s\<lparr>trace := trace s @ [ev]\<rparr>))"

text \<open>\<^verbatim>\<open>core.exportVariable(name, val)\<close>\<close>

definition exportVariable :: "string \<Rightarrow> string \<Rightarrow> unit action" where
  "exportVariable key val =
     (\<lambda>s. (Inr (), s\<lparr>processEnv := (processEnv s)(key \<mapsto> val),
                       trace := trace s @ [ExportVariable key val]\<rparr>))"

section \<open>The upload client\<close>

definition backoffPeriods :: "nat list" where
  "backoffPeriods = [1, 5, 15]"

text \<open>\<^verbatim>\<open>!statusCode || statusCode < 500 || statusCode >= 600\<close>\<close>

definition notRetryable :: "int option \<Rightarrow> bool" where
  "notRetryable statusCode =
     (case statusCode of None \<Rightarrow> True | Some s \<Rightarrow> s = 0 \<or> s < 500 \<or> s \<ge> 600)"

text \<open>
  The loop \<^verbatim>\<open>for (let attempt = 0; attempt <= backoffPeriods.length; attempt++)\<close>, from the
  iteration \<open>attempt\<close> on; it returns the outcome and the events of these iterations.
  \<open>server n\<close> is what the server answers to the request of iteration \<open>n\<close>. The request is
  awaited outside any \<^verbatim>\<open>try\<close>, so a rejection of the client leaves the function at once. The
  outermost \<open>else\<close> is the \<^verbatim>\<open>throw new Error('Upload failed')\<close> after the loop.
\<close>

function uploadAttempts ::
  "(nat \<Rightarrow> response) \<Rightarrow> string \<Rightarrow> string option \<Rightarrow> payload \<Rightarrow> nat
     \<Rightarrow> (error + unit) \<times> event list" where
  "uploadAttempts server owner repo payload attempt =
     (if attempt \<le> length backoffPeriods then
        (case request (server attempt) of
           Inl rejection \<Rightarrow> (Inl rejection, [PutAnalysis attempt owner repo payload])
         | Inr response \<Rightarrow>
             (let statusCode = response.status response;
                  requestID = x_github_request_id response
              in if statusCode = Some 202 then
                   (Inr (), [PutAnalysis attempt owner repo payload])
                 else if notRetryable statusCode then
                   (Inl (UploadFailed requestID statusCode (data response)),
                    [PutAnalysis attempt owner repo payload])
                 else if attempt < length backoffPeriods then
                   apsnd (\<lambda>tr. PutAnalysis attempt owner repo payload
                                # Sleep (backoffPeriods ! attempt * 1000) # tr)
                     (uploadAttempts server owner repo payload (attempt + 1))
                 else
                   (Inl (UploadFailedAfterRetries requestID statusCode (data response)),
                    [PutAnalysis attempt owner repo payload])))
      else (Inl (Error ''Upload failed''), []))"
  by pat_completeness auto
termination
  by (relation "measure (\<lambda>(server, owner, repo, payload, attempt).
                   Suc (length backoffPeriods) - attempt)")
     auto

declare uploadAttempts.simps [simp del]

text \<open>
  \<^verbatim>\<open>const [owner, repo] = nwo.split("/")\<close>: the first piece, and the second when there is
  one.
\<close>

definition ownerOf :: "string \<Rightarrow> string" where
  "ownerOf nwo = hd (split CHR ''/'' nwo)"

definition repoOf :: "string \<Rightarrow> string option" where
  "repoOf nwo =
     (let parts = split CHR ''/'' nwo in if length parts > 1 then Some (parts ! 1) else None)"

definition uploadPayload :: "world \<Rightarrow> payload \<Rightarrow> unit action" where
  "uploadPayload w payload =
     (\<lambda>s. if processEnv s ''TEST_MODE'' = Some ''true'' then (Inr (), s)
          else (case getRequiredEnvParam (processEnv s) ''GITHUB_REPOSITORY'' of
                  Inl e \<Rightarrow> (Inl e, s)
                | Inr nwo \<Rightarrow>
                    (case uploadAttempts (analysisEndpoint w) (ownerOf nwo) (repoOf nwo)
                            payload 0 of
                       (r, tr) \<Rightarrow> (r, s\<lparr>trace := trace s @ tr\<rparr>))))"

section \<open>The ref under analysis\<close>

definition isDigit :: "char \<Rightarrow> bool" where
  "isDigit c = (c \<in> set ''0123456789'')"

fun stripPrefix :: "string \<Rightarrow> string \<Rightarrow> string option" where
  "stripPrefix [] s = Some s"
| "stripPrefix (p # ps) [] = None"
| "stripPrefix (p # ps) (c # cs) = (if p = c then stripPrefix ps cs else None)"

text \<open>
  A match of \<^verbatim>\<open>/refs\/pull\/(\d+)\/merge/\<close> that starts at the head of the string: the digits
  of the group and the text after the match. The digits are followed by \<^verbatim>\<open>/\<close>, so the group is
  the longest run of digits.
\<close>

definition matchPullRefAt :: "string \<Rightarrow> (string \<times> string) option" where
  "matchPullRefAt s =
     (case stripPrefix ''refs/pull/'' s of
        None \<Rightarrow> None
      | Some t \<Rightarrow>
          (let ds = takeWhile isDigit t in
           if ds = [] then None
           else (case stripPrefix ''/merge'' (dropWhile isDigit t) of
                   None \<Rightarrow> None
                 | Some rest \<Rightarrow> Some (ds, rest))))"

text \<open>
  The pattern has no anchors: the leftmost match anywhere in the string, as the text before
  it, the digits of the group and the text after it.
\<close>

fun pull_ref_regex :: "string \<Rightarrow> (string \<times> string \<times> string) option" where
  "pull_ref_regex [] = None"
| "pull_ref_regex (c # cs) =
     (case matchPullRefAt (c # cs) of
        Some (ds, rest) \<Rightarrow> Some ([], ds, rest)
      | None \<Rightarrow> map_option (\<lambda>(before, ds, rest). (c # before, ds, rest)) (pull_ref_regex cs))"

definition getRef :: "env \<Rightarrow> error + string" where
  "getRef env =
     (case getRequiredEnvParam env ''GITHUB_REF'' of
        Inl e \<Rightarrow> Inl e
      | Inr githubRef \<Rightarrow>
          (case pull_ref_regex githubRef of
             Some (before, ds, rest) \<Rightarrow> Inr (before @ ''refs/pull/'' @ ds @ ''/head'' @ rest)
           | None \<Rightarrow> Inr githubRef))"

section \<open>The cached analysis key and the status reports\<close>

text \<open>
  Modelled from the spec: the module \<^verbatim>\<open>./shared-environment\<close> that declares the names of the
  cached variables is not among the sources. The spec has one key for the cached analysis key
  and another for the cached workflow start time; each is taken to be named as its constant.
\<close>

definition CODEQL_ACTION_ANALYSIS_KEY :: string where
  "CODEQL_ACTION_ANALYSIS_KEY = ''CODEQL_ACTION_ANALYSIS_KEY''"

definition CODEQL_WORKFLOW_STARTED_AT :: string where
  "CODEQL_WORKFLOW_STARTED_AT = ''CODEQL_WORKFLOW_STARTED_AT''"

definition getWorkflowPath :: "world \<Rightarrow> string action" where
  "getWorkflowPath w =
     andThen (fromEnv (\<lambda>e. getRequiredEnvParam e ''GITHUB_REPOSITORY'')) (\<lambda>nwo.
     andThen (fromEnv (\<lambda>e. getRequiredEnvParam e ''GITHUB_RUN_ID'')) (\<lambda>run_id.
     andThen (emit GetWorkflowPath) (\<lambda>_.
       (case workflowPath w (ownerOf nwo) (repoOf nwo) run_id of
          None \<Rightarrow> throw ApiError
        | Some path \<Rightarrow> ret path))))"

definition getAnalysisKey :: "world \<Rightarrow> string action" where
  "getAnalysisKey w =
     (\<lambda>s. case processEnv s CODEQL_ACTION_ANALYSIS_KEY of
            Some analysisKey \<Rightarrow> (Inr analysisKey, s)
          | None \<Rightarrow>
              (andThen (getWorkflowPath w) (\<lambda>workflowPath.
               andThen (fromEnv (\<lambda>e. getRequiredEnvParam e ''GITHUB_JOB'')) (\<lambda>jobName.
               andThen (exportVariable CODEQL_ACTION_ANALYSIS_KEY (workflowPath @ '':'' @ jobName))
                 (\<lambda>_. ret (workflowPath @ '':'' @ jobName))))) s)"

text \<open>\<^verbatim>\<open>process.env[name] || ''\<close>\<close>

definition orEmpty :: "string option \<Rightarrow> string" where
  "orEmpty v = (case v of None \<Rightarrow> [] | Some x \<Rightarrow> x)"

definition createStatusReportBase ::
  "world \<Rightarrow> string \<Rightarrow> ActionStatus \<Rightarrow> date \<Rightarrow> string option \<Rightarrow> string option
     \<Rightarrow> StatusReport action" where
  "createStatusReportBase w =
     (\<lambda>actionName status actionStartedAt cause exception s0.
       (let commitOid = orEmpty (processEnv s0 ''GITHUB_SHA'') in
        andThen (fromEnv getRef) (\<lambda>ref. (\<lambda>s1.
          (let workflowRunIDStr = processEnv s1 ''GITHUB_RUN_ID'';
               workflowRunID = (if truthy workflowRunIDStr
                                then parseInt w (the workflowRunIDStr) else Some (- 1));
               workflowName = orEmpty (processEnv s1 ''GITHUB_WORKFLOW'');
               jobName = orEmpty (processEnv s1 ''GITHUB_JOB'')
           in
           andThen (getAnalysisKey w) (\<lambda>analysis_key.
           andThen (\<lambda>s2. case processEnv s2 CODEQL_WORKFLOW_STARTED_AT of
                           Some v \<Rightarrow> (Inr v, s2)
                         | None \<Rightarrow>
                             andThen (exportVariable CODEQL_WORKFLOW_STARTED_AT
                                        (toISOString actionStartedAt))
                               (\<lambda>_. ret (toISOString actionStartedAt)) s2)
             (\<lambda>workflowStartedAt.
               ret \<lparr> StatusReport.workflow_run_id = workflowRunID,
                     workflow_name = workflowName,
                     job_name = jobName,
                     StatusReport.analysis_key = analysis_key,
                     StatusReport.commit_oid = commitOid,
                     StatusReport.ref = ref,
                     action_name = actionName,
                     action_oid = ''unknown'',
                     StatusReport.started_at = workflowStartedAt,
                     action_started_at = toISOString actionStartedAt,
                     StatusReport.status = status,
                     cause = (if truthy cause then cause else None),
                     exception = (if truthy exception then exception else None),
                     completed_at =
                       (if status = success \<or> status = failure \<or> status = aborted
                        then Some (toISOString (now w)) else None),
                     matrix_vars =
                       (if getInput w ''matrix'' \<noteq> [] then Some (getInput w ''matrix'')
                        else None) \<rparr>))) s1))) s0)"

text \<open>
  \<open>ignoreFailures\<close> is \<open>None\<close> when the caller leaves the argument out, as two of the three
  calls in \<^verbatim>\<open>upload-sarif.js\<close> do; \<^verbatim>\<open>!ignoreFailures\<close> holds for \<^verbatim>\<open>undefined\<close> and \<^verbatim>\<open>false\<close>.
\<close>

definition sendStatusReport :: "world \<Rightarrow> StatusReport \<Rightarrow> bool option \<Rightarrow> bool action" where
  "sendStatusReport w statusReport ignoreFailures =
     andThen (fromEnv (\<lambda>e. getRequiredEnvParam e ''GITHUB_REPOSITORY'')) (\<lambda>nwo.
     andThen (emit (PutStatus (ownerOf nwo) (repoOf nwo) statusReport)) (\<lambda>_.
     andThen (fromEnv (\<lambda>e. request (statusEndpoint w statusReport))) (\<lambda>statusResponse.
       (if ignoreFailures \<noteq> Some True then
          (if response.status statusResponse = Some 403 then
             andThen (emit (SetFailed
               ''The repo on which this action is running is not opted-in to CodeQL code scanning.''))
               (\<lambda>_. ret False)
           else if response.status statusResponse = Some 404 then
             andThen (emit (SetFailed
               ''Not authorized to used the CodeQL code scanning feature on this repo.''))
               (\<lambda>_. ret False)
           else ret True)
        else ret True))))"

section \<open>Tool names\<close>

text \<open>
  \<^verbatim>\<open>toolNames\<close> is an ordinary object used as a set: the model keeps its own property names
  in the order of their creation. An assignment \<^verbatim>\<open>toolNames[k] = true\<close> creates the property
  \<open>k\<close> when the object does not have it; for \<^verbatim>\<open>__proto__\<close> the assignment goes to the
  inherited setter, which ignores a value that is not an object, and creates nothing.
\<close>

definition setProperty :: "string list \<Rightarrow> string \<Rightarrow> string list" where
  "setProperty obj k = (if k = ''__proto__'' \<or> k \<in> set obj then obj else obj @ [k])"

text \<open>
  \<^verbatim>\<open>Object.keys\<close> lists the property names that are array indices first, in ascending
  numeric order, and then the other names in the order of their creation. An array index is
  the canonical decimal form of an integer from 0 to \<open>2\<^sup>3\<^sup>2 - 2\<close>.
\<close>

definition digitsValue :: "string \<Rightarrow> nat" where
  "digitsValue s = foldl (\<lambda>a c. 10 * a + (of_char c - 48)) 0 s"

definition isArrayIndex :: "string \<Rightarrow> bool" where
  "isArrayIndex s =
     (s \<noteq> [] \<and> list_all isDigit s \<and> (hd s \<noteq> CHR ''0'' \<or> length s = 1)
      \<and> digitsValue s < 4294967295)"

definition objectKeys :: "string list \<Rightarrow> string list" where
  "objectKeys obj =
     sort_key digitsValue (filter isArrayIndex obj) @ filter (\<lambda>k. \<not> isArrayIndex k) obj"

text \<open>\<^verbatim>\<open>((run.tool || {}).driver || {}).name\<close>, when it is a string.\<close>

definition driverName :: "run \<Rightarrow> string option" where
  "driverName r =
     (case tool r of
        None \<Rightarrow> None
      | Some t \<Rightarrow> (case driver t of None \<Rightarrow> None | Some d \<Rightarrow> name d))"

fun toolNamesLoop :: "run list \<Rightarrow> string list \<Rightarrow> string list" where
  "toolNamesLoop [] toolNames = toolNames"
| "toolNamesLoop (r # rest) toolNames =
     toolNamesLoop rest
       (case driverName r of
          None \<Rightarrow> toolNames
        | Some n \<Rightarrow> if length n > 0 then setProperty toolNames n else toolNames)"

definition getToolNames :: "combinedSarif \<Rightarrow> string list" where
  "getToolNames = (\<lambda>sarif. objectKeys (toolNamesLoop (combinedSarif.runs sarif) []))"

section \<open>Merging, validation and the upload of files\<close>

text \<open>
  The loop of \<^verbatim>\<open>combineSarifFiles\<close> over the files that are left, with the version and the
  runs of \<^verbatim>\<open>combinedSarif\<close> so far.
\<close>

fun combineLoop ::
  "world \<Rightarrow> string list \<Rightarrow> combinedSarif \<Rightarrow> error + combinedSarif" where
  "combineLoop w [] combined = Inr combined"
| "combineLoop w (sarifFile # rest) combined =
     (case readSarif w sarifFile of
        None \<Rightarrow> Inl (ReadError sarifFile)
      | Some sarifObject \<Rightarrow>
          (case combinedSarif.version combined of
             None \<Rightarrow>
               combineLoop w rest
                 \<lparr> combinedSarif.version = Some (sarifObject.version sarifObject),
                   combinedSarif.runs = combinedSarif.runs combined @ sarifObject.runs sarifObject \<rparr>
           | Some v \<Rightarrow>
               if v \<noteq> sarifObject.version sarifObject then
                 Inl (Thrown (''Different SARIF versions encountered: '' @ v @ '' and ''
                              @ sarifObject.version sarifObject))
               else
                 combineLoop w rest
                   (combined \<lparr> combinedSarif.runs :=
                                 combinedSarif.runs combined @ sarifObject.runs sarifObject \<rparr>)))"

definition combineSarifFiles :: "world \<Rightarrow> string list \<Rightarrow> error + combinedSarif" where
  "combineSarifFiles w sarifFiles =
     combineLoop w sarifFiles \<lparr> combinedSarif.version = None, combinedSarif.runs = [] \<rparr>"

fun countResultsLoop :: "run list \<Rightarrow> nat \<Rightarrow> nat" where
  "countResultsLoop [] numResults = numResults"
| "countResultsLoop (r # rest) numResults = countResultsLoop rest (numResults + length (results r))"

definition countResultsInSarif :: "combinedSarif \<Rightarrow> nat" where
  "countResultsInSarif = (\<lambda>sarif. countResultsLoop (combinedSarif.runs sarif) 0)"

fun join :: "string \<Rightarrow> string list \<Rightarrow> string" where
  "join sep [] = []"
| "join sep [x] = x"
| "join sep (x # y # ys) = x @ sep @ join sep (y # ys)"

definition validateSarifFileSchema :: "world \<Rightarrow> string \<Rightarrow> unit action" where
  "validateSarifFileSchema w sarifFilePath =
     andThen (emit (ValidateSarifFileSchema sarifFilePath)) (\<lambda>_.
       (case readSarif w sarifFilePath of
          None \<Rightarrow> throw (ReadError sarifFilePath)
        | Some sarifDoc \<Rightarrow>
            (let errors = schemaErrors w sarifDoc in
             if errors \<noteq> [] then
               throw (Error (''Unable to upload '' @ [CHR 0x22] @ sarifFilePath @ [CHR 0x22]
                             @ '' as it is not valid SARIF:'' @ [CHR 0x0A]
                             @ join [CHR 0x0A] (map (\<lambda>e. ''- '' @ e) errors)))
             else ret ())))"

text \<open>\<^verbatim>\<open>for (const file of sarifFiles) { validateSarifFileSchema(file); }\<close>\<close>

fun validateAll :: "world \<Rightarrow> string list \<Rightarrow> unit action" where
  "validateAll w [] = ret ()"
| "validateAll w (file # rest) =
     andThen (validateSarifFileSchema w file) (\<lambda>_. validateAll w rest)"

definition getCommitOid :: "world \<Rightarrow> string action" where
  "getCommitOid w =
     (case gitRevParseHead w of
        Some commitOid \<Rightarrow> ret commitOid
      | None \<Rightarrow> fromEnv (\<lambda>e. getRequiredEnvParam e ''GITHUB_SHA''))"

definition sentinelEnvVar :: string where
  "sentinelEnvVar = ''CODEQL_UPLOAD_SARIF''"

definition uploadFiles :: "world \<Rightarrow> string list \<Rightarrow> UploadStatusReport action" where
  "uploadFiles w sarifFiles =
     (\<lambda>s. if truthy (processEnv s sentinelEnvVar) then
            throw (Error (''Aborting upload: only one run of the codeql/analyze or ''
                          @ ''codeql/upload-sarif actions is allowed per job'')) s
          else
           (andThen (exportVariable sentinelEnvVar sentinelEnvVar) (\<lambda>_.
            andThen (validateAll w sarifFiles) (\<lambda>_.
            andThen (getCommitOid w) (\<lambda>commitOid.
            andThen (fromEnv (\<lambda>e. getRequiredEnvParam e ''GITHUB_RUN_ID'')) (\<lambda>workflowRunIDStr.
            andThen (fromEnv getRef) (\<lambda>ref.
            andThen (getAnalysisKey w) (\<lambda>analysisKey.
            andThen (fromEnv (\<lambda>e. getRequiredEnvParam e ''GITHUB_WORKFLOW'')) (\<lambda>analysisName.
            andThen (fromEnv (\<lambda>e. Inr (e CODEQL_WORKFLOW_STARTED_AT))) (\<lambda>startedAt.
            andThen (emit (CombineSarifFiles sarifFiles)) (\<lambda>_.
            andThen (fromEnv (\<lambda>e. combineSarifFiles w sarifFiles)) (\<lambda>combined.
            andThen (emit AddFingerprints) (\<lambda>_.
              (let sarifPayload = addFingerprints w combined;
                   zipped_sarif = gzipBase64 w (stringify w sarifPayload);
                   checkoutURI = fileUrl w (getInput w ''checkout_path'')
               in (case parseInt w workflowRunIDStr of
                     None \<Rightarrow>
                       throw (Error ''GITHUB_RUN_ID must define a non NaN workflow run ID'')
                   | Some workflowRunID \<Rightarrow>
                       (let matrix = (if getInput w ''matrix'' = ''null''
                                         \<or> getInput w ''matrix'' = []
                                      then None else Some (getInput w ''matrix''));
                            toolNames = getToolNames sarifPayload;
                            payload = \<lparr> payload.commit_oid = commitOid,
                                        payload.ref = ref,
                                        payload.analysis_key = analysisKey,
                                        analysis_name = analysisName,
                                        sarif = zipped_sarif,
                                        payload.workflow_run_id = workflowRunID,
                                        checkout_uri = checkoutURI,
                                        environment = matrix,
                                        payload.started_at = startedAt,
                                        tool_names = toolNames \<rparr>
                        in andThen (uploadPayload w payload) (\<lambda>_.
                             ret \<lparr> raw_upload_size_bytes = length (stringify w sarifPayload),
                                   zipped_upload_size_bytes = length zipped_sarif,
                                   num_results_in_sarif =
                                     countResultsInSarif sarifPayload \<rparr>)))))))))))))))) s)"

section \<open>Reading a trace\<close>

fun isPut :: "event \<Rightarrow> bool" where
  "isPut (PutAnalysis _ _ _ _) = True"
| "isPut _ = False"

fun isLookup :: "event \<Rightarrow> bool" where
  "isLookup GetWorkflowPath = True"
| "isLookup _ = False"

fun isSleep :: "event \<Rightarrow> bool" where
  "isSleep (Sleep _) = True"
| "isSleep _ = False"

text \<open>The events that an action added to the trace of the state it started from.\<close>

definition newEvents :: "state \<Rightarrow> state \<Rightarrow> event list" where
  "newEvents s s' = drop (length (trace s)) (trace s')"

text \<open>The files that were validated, in order.\<close>

fun validatedFile :: "event \<Rightarrow> string option" where
  "validatedFile (ValidateSarifFileSchema f) = Some f"
| "validatedFile _ = None"

definition validated :: "event list \<Rightarrow> string list" where
  "validated tr = List.map_filter validatedFile tr"

text \<open>The status is in \<open>[500, 600)\<close>.\<close>

definition retryable :: "int option \<Rightarrow> bool" where
  "retryable statusCode = (case statusCode of None \<Rightarrow> False | Some s \<Rightarrow> 500 \<le> s \<and> s < 600)"

text \<open>The pipeline phase that an event belongs to, if any.\<close>

datatype phase = Validate | Merge | Fingerprint | Upload

fun phaseOf :: "event \<Rightarrow> phase option" where
  "phaseOf (ValidateSarifFileSchema _) = Some Validate"
| "phaseOf (CombineSarifFiles _) = Some Merge"
| "phaseOf AddFingerprints = Some Fingerprint"
| "phaseOf (PutAnalysis _ _ _ _) = Some Upload"
| "phaseOf _ = None"

definition phases :: "event list \<Rightarrow> phase list" where
  "phases tr = List.map_filter phaseOf tr"

section \<open>Names in order of first appearance\<close>


definition driverNames :: "run list \<Rightarrow> string list" where
  "driverNames rs = List.map_filter driverName rs"

section \<open>Example inputs\<close>

definition exampleResponse :: "int option \<Rightarrow> response" where
  "exampleResponse st =
     \<lparr> response.status = st, x_github_request_id = Some ''0451:1A2B'', data = ''{}'' \<rparr>"

definition examplePayload :: payload where
  "examplePayload =
     \<lparr> payload.commit_oid = ''abc'', payload.ref = ''refs/heads/main'',
       payload.analysis_key = ''.github/workflows/codeql.yml:analyze'',
       analysis_name = ''CodeQL'', sarif = ''H4sI'', payload.workflow_run_id = 42,
       checkout_uri = ''file:///work'', environment = None, payload.started_at = None,
       tool_names = [''CodeQL''] \<rparr>"

definition exampleEnv :: env where
  "exampleEnv =
     map_of [(''GITHUB_REPOSITORY'', ''octo/repo''), (''GITHUB_REF'', ''refs/pull/7/merge''),
             (''GITHUB_RUN_ID'', ''42''), (''GITHUB_JOB'', ''analyze''),
             (''GITHUB_WORKFLOW'', ''CodeQL''), (''GITHUB_SHA'', ''abc'')]"

definition exampleRun :: "string \<Rightarrow> run" where
  "exampleRun n =
     \<lparr> tool = Some \<lparr> driver = Some \<lparr> name = Some n \<rparr> \<rparr>, results = [''r1'', ''r2''] \<rparr>"

definition exampleFiles :: "string \<Rightarrow> sarifObject option" where
  "exampleFiles path =
     (if path = ''a.sarif'' then
        Some \<lparr> sarifObject.version = ''2.1.0'', sarifObject.runs = [exampleRun ''ESLint''] \<rparr>
      else if path = ''b.sarif'' then
        Some \<lparr> sarifObject.version = ''2.1.0'', sarifObject.runs = [exampleRun ''CodeQL''] \<rparr>
      else if path = ''old.sarif'' then
        Some \<lparr> sarifObject.version = ''2.0.0'', sarifObject.runs = [exampleRun ''CodeQL''] \<rparr>
      else None)"

definition exampleWorld :: "(nat \<Rightarrow> response) \<Rightarrow> world" where
  "exampleWorld server =
     \<lparr> readSarif = exampleFiles,
       schemaErrors = (\<lambda>_. []),
       addFingerprints = (\<lambda>d. d),
       stringify = (\<lambda>d. ''{}''),
       gzipBase64 = (\<lambda>z. ''H4sI''),
       gitRevParseHead = Some ''abc'',
       workflowPath = (\<lambda>_ _ _. Some ''.github/workflows/codeql.yml''),
       getInput = (\<lambda>_. []),
       fileUrl = (\<lambda>p. ''file://'' @ p),
       parseInt = (\<lambda>z. if z = ''42'' then Some 42 else None),
       now = Date ''2020-06-01T10:00:09.000Z'',
       analysisEndpoint = server,
       statusEndpoint = (\<lambda>_. exampleResponse (Some 200)) \<rparr>"

definition exampleState :: state where
  "exampleState = \<lparr> processEnv = exampleEnv, trace = [] \<rparr>"

definition exampleServer :: "nat \<Rightarrow> response" where
  "exampleServer n = exampleResponse (Some 202)"

definition exampleReport :: StatusReport where
  "exampleReport =
     \<lparr> StatusReport.workflow_run_id = Some 42, workflow_name = ''CodeQL'',
       job_name = ''analyze'',
       StatusReport.analysis_key = ''.github/workflows/codeql.yml:analyze'',
       StatusReport.commit_oid = ''abc'', StatusReport.ref = ''refs/pull/7/head'',
       action_name = ''upload-sarif'', action_oid = ''unknown'',
       StatusReport.started_at = ''2020-06-01T10:00:00.000Z'',
       action_started_at = ''2020-06-01T10:00:00.000Z'',
       StatusReport.status = starting, cause = None, exception = None,
       completed_at = None, matrix_vars = None \<rparr>"

definition exampleDocument :: "string list \<Rightarrow> combinedSarif" where
  "exampleDocument names =
     \<lparr> combinedSarif.version = Some ''2.1.0'', combinedSarif.runs = map exampleRun names \<rparr>"

section \<open>The API client and the upload loop\<close>

lemma notRetryable_iff: "notRetryable sc = (\<not> retryable sc)"
  by (auto simp: notRetryable_def retryable_def split: option.splits)

lemma retryable_not_202: "retryable sc \<Longrightarrow> sc \<noteq> Some 202"
  by (auto simp: retryable_def)

text \<open>
  The client fulfils a request that the server answers with 202, and rejects one that the
  server answers with 400 or more, or does not answer. A response that the code receives is
  what the server answered, and its status is never in \<open>[500, 600)\<close>, nor 403 or 404.
\<close>

lemma request_accepted:
  "response.status answer = Some 202 \<Longrightarrow> request answer = Inr answer"
  by (simp add: request_def)

lemma request_rejected:
  "response.status answer = None \<or> (\<exists>st. response.status answer = Some st \<and> st \<ge> 400) \<Longrightarrow>
   request answer = Inl (RequestError answer)"
  by (auto simp: request_def)

lemma request_fulfilled:
  "request answer = Inr r \<Longrightarrow>
   r = answer \<and> \<not> retryable (response.status r)
   \<and> response.status r \<noteq> None \<and> response.status r \<noteq> Some 403 \<and> response.status r \<noteq> Some 404"
  by (auto simp: request_def retryable_def split: option.splits if_splits)

lemma request_outcome:
  "request answer = Inl (RequestError answer) \<or> request answer = Inr answer"
  by (simp add: request_def split: option.splits)

lemma uploadAttempts_accepted:
  "attempt \<le> 3 \<Longrightarrow> response.status (server attempt) = Some 202 \<Longrightarrow>
   uploadAttempts server owner repo p attempt = (Inr (), [PutAnalysis attempt owner repo p])"
  by (subst uploadAttempts.simps) (simp add: backoffPeriods_def Let_def request_accepted)

lemma uploadAttempts_rejected:
  "attempt \<le> 3 \<Longrightarrow> request (server attempt) = Inl rejection \<Longrightarrow>
   uploadAttempts server owner repo p attempt =
     (Inl rejection, [PutAnalysis attempt owner repo p])"
  by (subst uploadAttempts.simps) (simp add: backoffPeriods_def)

text \<open>
  The \<^verbatim>\<open>throw\<close> on a status that is not 5xx is reached with the statuses that the client lets
  through, other than 202.
\<close>

lemma uploadAttempts_other_status:
  "attempt \<le> 3 \<Longrightarrow> request (server attempt) = Inr r \<Longrightarrow> response.status r \<noteq> Some 202 \<Longrightarrow>
   uploadAttempts server owner repo p attempt =
     (Inl (UploadFailed (x_github_request_id r) (response.status r) (data r)),
      [PutAnalysis attempt owner repo p])"
  using request_fulfilled[of "server attempt" r]
  by (subst uploadAttempts.simps) (auto simp: backoffPeriods_def notRetryable_iff Let_def)

text \<open>
  No iteration of the loop is followed by another: the branch that sleeps and retries
  needs a response with a 5xx status, and the client rejects these.
\<close>

lemma uploadAttempts_one_request:
  "attempt \<le> 3 \<Longrightarrow>
   snd (uploadAttempts server owner repo p attempt) = [PutAnalysis attempt owner repo p]"
proof -
  assume a: "attempt \<le> 3"
  show ?thesis
  proof (cases "request (server attempt)")
    case (Inl rejection)
    then show ?thesis using a by (simp add: uploadAttempts_rejected)
  next
    case (Inr r)
    then have r: "r = server attempt" using request_fulfilled by blast
    show ?thesis
    proof (cases "response.status r = Some 202")
      case True
      then show ?thesis using a r by (simp add: uploadAttempts_accepted)
    next
      case False
      then show ?thesis using a Inr by (simp add: uploadAttempts_other_status)
    qed
  qed
qed

lemma uploadAttempts_after_loop:
  "\<not> attempt \<le> 3 \<Longrightarrow> uploadAttempts server owner repo p attempt = (Inl (Error ''Upload failed''), [])"
  by (subst uploadAttempts.simps) (simp add: backoffPeriods_def)

lemma count_puts:
  "length (filter isPut (snd (uploadAttempts server owner repo p attempt))) \<le> 4 - attempt"
  by (cases "attempt \<le> 3") (simp_all add: uploadAttempts_one_request uploadAttempts_after_loop)

lemma uploadPayload_live:
  "processEnv s ''TEST_MODE'' \<noteq> Some ''true'' \<Longrightarrow>
   getRequiredEnvParam (processEnv s) ''GITHUB_REPOSITORY'' = Inr nwo \<Longrightarrow>
   uploadPayload w p s =
     (case uploadAttempts (analysisEndpoint w) (ownerOf nwo) (repoOf nwo) p 0 of
        (r, tr) \<Rightarrow> (r, s\<lparr>trace := trace s @ tr\<rparr>))"
  by (simp add: uploadPayload_def)

lemma uploadPayload_puts:
  "length (filter isPut (trace (snd (uploadPayload w p s)))) \<le> length (filter isPut (trace s)) + 4"
  using count_puts[of "analysisEndpoint w" _ _ p 0]
  by (auto simp: uploadPayload_def split: sum.splits prod.splits) (metis diff_zero snd_conv)

text \<open>
  When delivery is attempted, the upload is one request and no sleep, whatever the server
  answers; a request that the server answers with 400 or more, or does not answer, ends the
  upload with the rejection of the client.
\<close>

lemma uploadPayload_one_request:
  "processEnv s ''TEST_MODE'' \<noteq> Some ''true'' \<Longrightarrow>
   getRequiredEnvParam (processEnv s) ''GITHUB_REPOSITORY'' = Inr nwo \<Longrightarrow>
   snd (uploadPayload w p s) = s\<lparr>trace := trace s @ [PutAnalysis 0 (ownerOf nwo) (repoOf nwo) p]\<rparr>"
  using uploadAttempts_one_request[of 0 "analysisEndpoint w" "ownerOf nwo" "repoOf nwo" p]
  by (auto simp: uploadPayload_live split: prod.splits)

lemma uploadPayload_rejected:
  "processEnv s ''TEST_MODE'' \<noteq> Some ''true'' \<Longrightarrow>
   getRequiredEnvParam (processEnv s) ''GITHUB_REPOSITORY'' = Inr nwo \<Longrightarrow>
   response.status (analysisEndpoint w 0) = None
     \<or> (\<exists>st. response.status (analysisEndpoint w 0) = Some st \<and> st \<ge> 400) \<Longrightarrow>
   uploadPayload w p s =
     (Inl (RequestError (analysisEndpoint w 0)),
      s\<lparr>trace := trace s @ [PutAnalysis 0 (ownerOf nwo) (repoOf nwo) p]\<rparr>)"
  using request_rejected[of "analysisEndpoint w 0"]
  by (simp add: uploadPayload_live uploadAttempts_rejected)

lemma exampleEnv_live:
  "processEnv exampleState ''TEST_MODE'' \<noteq> Some ''true''"
  "getRequiredEnvParam (processEnv exampleState) ''GITHUB_REPOSITORY'' = Inr ''octo/repo''"
  by (simp_all add: exampleState_def exampleEnv_def getRequiredEnvParam_def)

lemma example_owner_repo: "ownerOf ''octo/repo'' = ''octo''" "repoOf ''octo/repo'' = Some ''repo''"
  by (simp_all add: ownerOf_def repoOf_def)

lemma exampleWorld_analysisEndpoint: "analysisEndpoint (exampleWorld server) = server"
  by (simp add: exampleWorld_def)

text \<open>
  Claim C1. When the server answers the attempts with 503, 503 and 202, \<^verbatim>\<open>uploadPayload\<close>
  makes one request, does not sleep and throws the rejection of the client for the first 503:
  it does not retry after 1s and 5s and succeed at the third attempt, as the claim and the
  comment above the function have it. The loop is written for a client that returns the 5xx
  response; the client of \<^verbatim>\<open>api-client\<close> rejects it and nothing catches the rejection.
\<close>

theorem upload_not_retried_after_503:
  "uploadPayload (exampleWorld (\<lambda>n. exampleResponse (Some (if n < 2 then 503 else 202))))
       examplePayload exampleState =
     (Inl (RequestError (exampleResponse (Some 503))),
      exampleState\<lparr>trace := [PutAnalysis 0 ''octo'' (Some ''repo'') examplePayload]\<rparr>)"
  using uploadPayload_rejected[of exampleState "''octo/repo''"
          "exampleWorld (\<lambda>n. exampleResponse (Some (if n < 2 then 503 else 202)))" examplePayload]
        exampleEnv_live
  by (simp add: exampleWorld_analysisEndpoint example_owner_repo exampleResponse_def
        exampleState_def)


section \<open>Status reports\<close>

text \<open>
  When the request is made, \<^verbatim>\<open>sendStatusReport\<close> throws the rejection of the client for every
  answer of 400 or more and for no answer; it returns \<^verbatim>\<open>true\<close> for every response it
  receives, since a response never has the status 403 or 404.
\<close>

lemma sendStatusReport_outcome:
  assumes "getRequiredEnvParam (processEnv s) ''GITHUB_REPOSITORY'' = Inr nwo"
  shows "fst (sendStatusReport w report ignoreFailures s) =
           (case request (statusEndpoint w report) of
              Inl rejection \<Rightarrow> Inl rejection | Inr r \<Rightarrow> Inr True)"
proof (cases "request (statusEndpoint w report)")
  case (Inl rejection)
  then show ?thesis
    using assms by (simp add: sendStatusReport_def andThen_def fromEnv_def emit_def)
next
  case (Inr r)
  then show ?thesis
    using assms request_fulfilled[OF Inr]
    by (auto simp: sendStatusReport_def andThen_def fromEnv_def emit_def ret_def)
qed

text \<open>
  Claim C7. When the status endpoint answers 403 and failures are not ignored,
  \<^verbatim>\<open>sendStatusReport\<close> does not return \<^verbatim>\<open>false\<close>: it throws the rejection of the client, as it
  does for the same answer when failures are ignored and for an answer of 500, where the
  claim has \<^verbatim>\<open>true\<close>. The tests of the status 403 and 404 are written for a client that returns
  these responses; the client of \<^verbatim>\<open>api-client\<close> rejects them and nothing catches the rejection.
\<close>

theorem status_report_403_throws:
  "fst (sendStatusReport
          ((exampleWorld exampleServer)
             \<lparr>statusEndpoint := (\<lambda>r. exampleResponse (Some 403))\<rparr>)
          exampleReport (Some False) exampleState) = Inl (RequestError (exampleResponse (Some 403)))
   \<and> fst (sendStatusReport
          ((exampleWorld exampleServer)
             \<lparr>statusEndpoint := (\<lambda>r. exampleResponse (Some 403))\<rparr>)
          exampleReport (Some True) exampleState) = Inl (RequestError (exampleResponse (Some 403)))
   \<and> fst (sendStatusReport
          ((exampleWorld exampleServer)
             \<lparr>statusEndpoint := (\<lambda>r. exampleResponse (Some 500))\<rparr>)
          exampleReport (Some False) exampleState) = Inl (RequestError (exampleResponse (Some 500)))"
  using sendStatusReport_outcome[of exampleState "''octo/repo''"
          "(exampleWorld exampleServer)
             \<lparr>statusEndpoint := (\<lambda>r. exampleResponse (Some 403))\<rparr>" exampleReport]
        sendStatusReport_outcome[of exampleState "''octo/repo''"
          "(exampleWorld exampleServer)
             \<lparr>statusEndpoint := (\<lambda>r. exampleResponse (Some 500))\<rparr>" exampleReport]
        exampleEnv_live
  by (simp add: exampleWorld_def exampleResponse_def request_def)

section \<open>Tool names\<close>



lemma exampleDocument_names [simp]:
  "driverNames (combinedSarif.runs (exampleDocument names)) = names"
  by (induction names) (simp_all add: exampleDocument_def driverNames_def map_filter_simps exampleRun_def driverName_def)



section \<open>The ref under analysis\<close>

text \<open>
  A ref of the exact form \<^verbatim>\<open>refs/pull/N/merge\<close> is rewritten to \<^verbatim>\<open>refs/pull/N/head\<close>, and a
  ref in which the pattern finds nothing is returned as it is.
\<close>

lemma matchPullRefAt_exact:
  assumes "ds \<noteq> []" "list_all isDigit ds" "rest = [] \<or> \<not> isDigit (hd (''/merge'' @ rest))"
  shows "matchPullRefAt (''refs/pull/'' @ ds @ ''/merge'' @ rest) = Some (ds, rest)"
proof -
  have nd: "\<not> isDigit CHR ''/''" by (simp add: isDigit_def)
  have t: "takeWhile isDigit (ds @ ''/merge'' @ rest) = ds"
    using assms(2) nd by (induction ds) simp_all
  have d: "dropWhile isDigit (ds @ ''/merge'' @ rest) = ''/merge'' @ rest"
    using assms(2) nd by (induction ds) simp_all
  show ?thesis using assms(1) t d by (simp add: matchPullRefAt_def)
qed

lemma getRef_pull_request:
  assumes "ds \<noteq> []" "list_all isDigit ds"
  shows "getRef [''GITHUB_REF'' \<mapsto> ''refs/pull/'' @ ds @ ''/merge'']
           = Inr (''refs/pull/'' @ ds @ ''/head'')"
  using matchPullRefAt_exact[OF assms, of "[]"]
  by (simp add: getRef_def getRequiredEnvParam_def)

lemma getRef_other:
  "githubRef \<noteq> [] \<Longrightarrow> pull_ref_regex githubRef = None \<Longrightarrow>
   getRef [''GITHUB_REF'' \<mapsto> githubRef] = Inr githubRef"
  by (simp add: getRef_def getRequiredEnvParam_def)

text \<open>
  Claim C10. On a ref that is not of the form \<^verbatim>\<open>refs/pull/N/merge\<close> but contains such a text,
  here the ref of a push to the branch \<^verbatim>\<open>x/refs/pull/1/merge\<close>, \<^verbatim>\<open>getRef\<close> does not return the
  ref unchanged: the pattern has no anchors and the text inside the ref is rewritten.
\<close>

theorem getRef_rewrites_branch_ref:
  "getRef [''GITHUB_REF'' \<mapsto> ''refs/heads/x/refs/pull/1/merge'']
     = Inr ''refs/heads/x/refs/pull/1/head''"
  by (simp add: getRef_def getRequiredEnvParam_def matchPullRefAt_def isDigit_def)

section \<open>Merging\<close>

lemma combineLoop_same_version:
  "combinedSarif.version c = Some v \<Longrightarrow>
   \<forall>f \<in> set files. \<exists>d. readSarif w f = Some d \<and> sarifObject.version d = v \<Longrightarrow>
   combineLoop w files c =
     Inr \<lparr> combinedSarif.version = Some v,
           combinedSarif.runs = combinedSarif.runs c
             @ concat (map (\<lambda>f. sarifObject.runs (the (readSarif w f))) files) \<rparr>"
proof (induction files arbitrary: c)
  case Nil
  then show ?case by simp
next
  case (Cons f files)
  then obtain d where d: "readSarif w f = Some d" "sarifObject.version d = v" by auto
  show ?case
    using Cons.prems d
      Cons.IH[of "c\<lparr>combinedSarif.runs := combinedSarif.runs c @ sarifObject.runs d\<rparr>"]
    by simp
qed

lemma combineLoop_mismatch:
  "combinedSarif.version c = Some v \<Longrightarrow>
   \<forall>f \<in> set pre. \<exists>d. readSarif w f = Some d \<and> sarifObject.version d = v \<Longrightarrow>
   readSarif w g = Some dg \<Longrightarrow> sarifObject.version dg \<noteq> v \<Longrightarrow>
   combineLoop w (pre @ g # post) c =
     Inl (Thrown (''Different SARIF versions encountered: '' @ v @ '' and ''
                  @ sarifObject.version dg))"
proof (induction pre arbitrary: c)
  case Nil
  then show ?case by auto
next
  case (Cons f pre)
  then obtain d where d: "readSarif w f = Some d" "sarifObject.version d = v" by auto
  show ?case
    using Cons.prems d
      Cons.IH[of "c\<lparr>combinedSarif.runs := combinedSarif.runs c @ sarifObject.runs d\<rparr>"]
    by simp
qed

text \<open>
  Claim C5. For a non-empty list of parseable files that all declare the version \<open>v\<close>,
  \<^verbatim>\<open>combineSarifFiles\<close> returns the document with version \<open>v\<close> whose runs are the runs of the
  files, concatenated in file order and, within a file, in the order of the file, with no
  run removed. When a file after the first is the first whose version differs from the
  version of the first file, it throws the message that names both versions.
\<close>

theorem combineSarifFiles_concatenates:
  "(files \<noteq> [] \<and> (\<forall>f \<in> set files. \<exists>d. readSarif w f = Some d \<and> sarifObject.version d = v) \<longrightarrow>
      combineSarifFiles w files =
        Inr \<lparr> combinedSarif.version = Some v,
              combinedSarif.runs =
                concat (map (\<lambda>f. sarifObject.runs (the (readSarif w f))) files) \<rparr>)
   \<and> (readSarif w f0 = Some d0
      \<and> (\<forall>f \<in> set pre. \<exists>d. readSarif w f = Some d
                              \<and> sarifObject.version d = sarifObject.version d0)
      \<and> readSarif w g = Some dg \<and> sarifObject.version dg \<noteq> sarifObject.version d0 \<longrightarrow>
      combineSarifFiles w (f0 # pre @ g # post) =
        Inl (Thrown (''Different SARIF versions encountered: '' @ sarifObject.version d0
                     @ '' and '' @ sarifObject.version dg)))"
proof (intro conjI impI)
  assume a: "files \<noteq> [] \<and> (\<forall>f \<in> set files. \<exists>d. readSarif w f = Some d \<and> sarifObject.version d = v)"
  then obtain f rest where fr: "files = f # rest" by (cases files) auto
  with a obtain d where d: "readSarif w f = Some d" "sarifObject.version d = v" by auto
  show "combineSarifFiles w files =
        Inr \<lparr> combinedSarif.version = Some v,
              combinedSarif.runs =
                concat (map (\<lambda>f. sarifObject.runs (the (readSarif w f))) files) \<rparr>"
    using a fr d
      combineLoop_same_version[of "\<lparr>combinedSarif.version = Some v, combinedSarif.runs = sarifObject.runs d\<rparr>" v rest w]
    by (simp add: combineSarifFiles_def)
next
  assume a: "readSarif w f0 = Some d0
      \<and> (\<forall>f \<in> set pre. \<exists>d. readSarif w f = Some d
                              \<and> sarifObject.version d = sarifObject.version d0)
      \<and> readSarif w g = Some dg \<and> sarifObject.version dg \<noteq> sarifObject.version d0"
  show "combineSarifFiles w (f0 # pre @ g # post) =
        Inl (Thrown (''Different SARIF versions encountered: '' @ sarifObject.version d0
                     @ '' and '' @ sarifObject.version dg))"
    using a
      combineLoop_mismatch[of "\<lparr>combinedSarif.version = Some (sarifObject.version d0), combinedSarif.runs = sarifObject.runs d0\<rparr>"
         "sarifObject.version d0" pre w g dg post]
    by (simp add: combineSarifFiles_def)
qed

theorem combineSarifFiles_concatenates_witness:
  "combineSarifFiles (exampleWorld (\<lambda>n. exampleResponse (Some 202))) [''a.sarif'', ''b.sarif''] =
     Inr \<lparr> combinedSarif.version = Some ''2.1.0'',
           combinedSarif.runs = [exampleRun ''ESLint'', exampleRun ''CodeQL''] \<rparr>
   \<and> combineSarifFiles (exampleWorld (\<lambda>n. exampleResponse (Some 202)))
        [''a.sarif'', ''b.sarif'', ''old.sarif'', ''missing.sarif''] =
     Inl (Thrown ''Different SARIF versions encountered: 2.1.0 and 2.0.0'')"
  using combineSarifFiles_concatenates[of "[''a.sarif'', ''b.sarif'']"
          "exampleWorld (\<lambda>n. exampleResponse (Some 202))" "''2.1.0''"
          "''a.sarif''" "the (exampleFiles ''a.sarif'')" "[''b.sarif'']" "''old.sarif''"
          "the (exampleFiles ''old.sarif'')" "[''missing.sarif'']"]
  by (simp add: exampleWorld_def exampleFiles_def)


section \<open>The effects of the actions on the state\<close>

lemma validateSarifFileSchema_state:
  "validateSarifFileSchema w f s = (r, s') \<Longrightarrow>
   processEnv s' = processEnv s \<and> trace s' = trace s @ [ValidateSarifFileSchema f]"
  by (auto simp: validateSarifFileSchema_def andThen_def emit_def throw_def ret_def Let_def
           split: option.splits if_splits)

lemma validateAll_state:
  "validateAll w files s = (r, s') \<Longrightarrow>
   processEnv s' = processEnv s
   \<and> (\<exists>n\<le>length files. trace s' = trace s @ map ValidateSarifFileSchema (take n files)
                        \<and> (r = Inr () \<longrightarrow> n = length files))"
proof (induction files arbitrary: s)
  case Nil
  then show ?case by (simp add: ret_def)
next
  case (Cons f files)
  obtain r1 s1 where v: "validateSarifFileSchema w f s = (r1, s1)"
    by (cases "validateSarifFileSchema w f s")
  note st = validateSarifFileSchema_state[OF v]
  show ?case
  proof (cases r1)
    case (Inl e)
    with Cons.prems v have "s' = s1" "r = Inl e" by (simp_all add: andThen_def)
    with st show ?thesis by (intro conjI exI[of _ 1]) simp_all
  next
    case (Inr u)
    with Cons.prems v have "validateAll w files s1 = (r, s')" by (simp add: andThen_def)
    from Cons.IH[OF this] obtain n where
      "processEnv s' = processEnv s1" "n \<le> length files"
      "trace s' = trace s1 @ map ValidateSarifFileSchema (take n files)"
      "r = Inr () \<longrightarrow> n = length files" by blast
    with st show ?thesis by (intro conjI exI[of _ "Suc n"]) simp_all
  qed
qed

lemma getWorkflowPath_state:
  "getWorkflowPath w s = (r, s') \<Longrightarrow>
   processEnv s' = processEnv s
   \<and> (trace s' = trace s \<and> isl r \<or> trace s' = trace s @ [GetWorkflowPath])"
  by (auto simp: getWorkflowPath_def andThen_def fromEnv_def emit_def throw_def ret_def
           split: sum.splits option.splits)
     (metis sum.disc(1))+

lemma getAnalysisKey_cached:
  "processEnv s CODEQL_ACTION_ANALYSIS_KEY = Some k \<Longrightarrow> getAnalysisKey w s = (Inr k, s)"
  by (simp add: getAnalysisKey_def)

lemma getAnalysisKey_state:
  "getAnalysisKey w s = (r, s') \<Longrightarrow>
   (\<exists>k. r = Inr k \<and> s' = s \<and> processEnv s CODEQL_ACTION_ANALYSIS_KEY = Some k)
   \<or> (processEnv s CODEQL_ACTION_ANALYSIS_KEY = None \<and> isl r \<and> processEnv s' = processEnv s
       \<and> (trace s' = trace s \<or> trace s' = trace s @ [GetWorkflowPath]))
   \<or> (processEnv s CODEQL_ACTION_ANALYSIS_KEY = None
       \<and> (\<exists>k. r = Inr k \<and> processEnv s' = (processEnv s)(CODEQL_ACTION_ANALYSIS_KEY \<mapsto> k)
              \<and> trace s' = trace s @ [GetWorkflowPath, ExportVariable CODEQL_ACTION_ANALYSIS_KEY k]))"
proof -
  assume a: "getAnalysisKey w s = (r, s')"
  show ?thesis
  proof (cases "processEnv s CODEQL_ACTION_ANALYSIS_KEY")
  case (Some k)
  then show ?thesis using a getAnalysisKey_cached[OF Some, of w] by simp
next
  case None
  obtain r1 s1 where g: "getWorkflowPath w s = (r1, s1)" by (cases "getWorkflowPath w s")
  note st = getWorkflowPath_state[OF g]
  show ?thesis
    using a None g st
    by (auto simp: getAnalysisKey_def andThen_def fromEnv_def exportVariable_def ret_def
             split: sum.splits)
       (metis sum.disc(1))+
qed
qed

lemma uploadAttempts_events:
  "\<forall>e \<in> set (snd (uploadAttempts server owner repo p attempt)). isPut e \<or> isSleep e"
  by (cases "attempt \<le> 3") (simp_all add: uploadAttempts_one_request uploadAttempts_after_loop)

lemma uploadFiles_duplicate:
  "truthy (processEnv s sentinelEnvVar) \<Longrightarrow>
   uploadFiles w files s =
     (Inl (Error (''Aborting upload: only one run of the codeql/analyze or ''
                  @ ''codeql/upload-sarif actions is allowed per job'')), s)"
  by (simp add: uploadFiles_def throw_def)

lemma getCommitOid_pure: "getCommitOid w s = (fst (getCommitOid w s), s)"
  by (simp add: getCommitOid_def ret_def fromEnv_def split: option.splits)

lemmas action_defs =
  andThen_def fromEnv_def emit_def ret_def throw_def Let_def exportVariable_def

lemma uploadFiles_exits:
  assumes ns: "\<not> truthy (processEnv s sentinelEnvVar)"
    and V: "validateAll w files
              (s\<lparr>processEnv := (processEnv s)(sentinelEnvVar \<mapsto> sentinelEnvVar),
                 trace := trace s @ [ExportVariable sentinelEnvVar sentinelEnvVar]\<rparr>) = (rv, s2)"
    and K: "getAnalysisKey w s2 = (rk, s3)"
    and e1: "\<And>e. Q (Inl e, s2)"
    and e2: "\<And>e. rv = Inr () \<Longrightarrow> Q (Inl e, s3)"
    and e3: "\<And>e. rv = Inr () \<Longrightarrow> \<not> isl rk \<Longrightarrow>
               Q (Inl e, s3\<lparr>trace := trace s3 @ [CombineSarifFiles files]\<rparr>)"
    and e4: "\<And>e. rv = Inr () \<Longrightarrow> \<not> isl rk \<Longrightarrow>
               Q (Inl e, s3\<lparr>trace := trace s3 @ [CombineSarifFiles files, AddFingerprints]\<rparr>)"
    and e5: "\<And>p st. rv = Inr () \<Longrightarrow> \<not> isl rk \<Longrightarrow>
               getRef (processEnv s2) = Inr (payload.ref p) \<Longrightarrow>
               Q (case uploadPayload w p
                         (s3\<lparr>trace := trace s3 @ [CombineSarifFiles files, AddFingerprints]\<rparr>) of
                    (Inl e, s') \<Rightarrow> (Inl e, s') | (Inr x, s') \<Rightarrow> (Inr st, s'))"
  shows "Q (uploadFiles w files s)"
proof (cases rv)
  case (Inl e)
  then have "uploadFiles w files s = (Inl e, s2)"
    using ns V by (simp add: uploadFiles_def action_defs)
  then show ?thesis using e1 by simp
next
  case (Inr u)
  then have V': "validateAll w files
              (s\<lparr>processEnv := (processEnv s)(sentinelEnvVar \<mapsto> sentinelEnvVar),
                 trace := trace s @ [ExportVariable sentinelEnvVar sentinelEnvVar]\<rparr>) = (Inr (), s2)"
    and rv: "rv = Inr ()"
    using V by simp_all
  show ?thesis
  proof (cases "fst (getCommitOid w s2)")
    case (Inl e)
    then have C: "getCommitOid w s2 = (Inl e, s2)" using getCommitOid_pure[of w s2] by simp
    have "uploadFiles w files s = (Inl e, s2)"
      using ns V' C by (simp add: uploadFiles_def action_defs)
    then show ?thesis using e1 by simp
  next
    case (Inr c)
    then have C: "getCommitOid w s2 = (Inr c, s2)" using getCommitOid_pure[of w s2] by simp
    show ?thesis
    proof (cases "getRequiredEnvParam (processEnv s2) ''GITHUB_RUN_ID''")
      case (Inl e)
      have "uploadFiles w files s = (Inl e, s2)"
        using ns V' C Inl by (simp add: uploadFiles_def action_defs)
      then show ?thesis using e1 by simp
    next
      case R: (Inr rid)
      show ?thesis
      proof (cases "getRef (processEnv s2)")
        case (Inl e)
        have "uploadFiles w files s = (Inl e, s2)"
          using ns V' C R Inl by (simp add: uploadFiles_def action_defs)
        then show ?thesis using e1 by simp
      next
        case F: (Inr gr)
        show ?thesis
        proof (cases rk)
          case (Inl e)
          have "uploadFiles w files s = (Inl e, s3)"
            using ns V' C R F K Inl by (simp add: uploadFiles_def action_defs)
          then show ?thesis using e2 rv by simp
        next
          case (Inr k)
          then have K': "getAnalysisKey w s2 = (Inr k, s3)" and nk: "\<not> isl rk"
            using K by simp_all
          show ?thesis
          proof (cases "getRequiredEnvParam (processEnv s3) ''GITHUB_WORKFLOW''")
            case (Inl e)
            have "uploadFiles w files s = (Inl e, s3)"
              using ns V' C R F K' Inl by (simp add: uploadFiles_def action_defs)
            then show ?thesis using e2 rv by simp
          next
            case W: (Inr wf)
            show ?thesis
            proof (cases "combineSarifFiles w files")
              case (Inl e)
              have "uploadFiles w files s
                      = (Inl e, s3\<lparr>trace := trace s3 @ [CombineSarifFiles files]\<rparr>)"
                using ns V' C R F K' W Inl by (simp add: uploadFiles_def action_defs)
              then show ?thesis using e3 rv nk by simp
            next
              case M: (Inr doc)
              show ?thesis
              proof (cases "parseInt w rid")
                case None
                have "uploadFiles w files s
                        = (Inl (Error ''GITHUB_RUN_ID must define a non NaN workflow run ID''),
                           s3\<lparr>trace := trace s3 @ [CombineSarifFiles files, AddFingerprints]\<rparr>)"
                  using ns V' C R F K' W M None by (simp add: uploadFiles_def action_defs)
                then show ?thesis using e4 rv nk by simp
              next
                case (Some n)
                show ?thesis
                  using ns V' C R F K' W M Some
                  apply (simp add: uploadFiles_def action_defs)
                  apply (intro conjI impI)
                    apply (rule e5[OF rv nk], simp)+
                  done
              qed
            qed
          qed
        qed
      qed
    qed
  qed
qed


lemma phases_simps [simp]:
  "phases [] = []"
  "phases (e # es) = (case phaseOf e of None \<Rightarrow> phases es | Some p \<Rightarrow> p # phases es)"
  by (simp_all add: phases_def map_filter_simps split: option.splits)

lemma phases_append [simp]: "phases (xs @ ys) = phases xs @ phases ys"
  by (simp add: phases_def map_filter_def)

lemma validated_simps [simp]:
  "validated [] = []"
  "validated (e # es) = (case validatedFile e of None \<Rightarrow> validated es | Some f \<Rightarrow> f # validated es)"
  by (simp_all add: validated_def map_filter_simps split: option.splits)

lemma validated_append [simp]: "validated (xs @ ys) = validated xs @ validated ys"
  by (simp add: validated_def map_filter_def)

lemma validation_events [simp]:
  "phases (map ValidateSarifFileSchema fs) = replicate (length fs) Validate"
  "validated (map ValidateSarifFileSchema fs) = fs"
  by (induction fs) simp_all

lemma upload_events:
  "\<forall>e \<in> set tr. isPut e \<or> isSleep e \<Longrightarrow>
   phases tr = replicate (length (filter isPut tr)) Upload \<and> validated tr = []
   \<and> (\<forall>k v. ExportVariable k v \<notin> set tr)"
proof (induction tr)
  case Nil
  then show ?case by simp
next
  case (Cons e tr)
  then show ?case by (cases e) auto
qed

lemma uploadPayload_state:
  "uploadPayload w p s = (r, s') \<Longrightarrow>
   processEnv s' = processEnv s
   \<and> (\<exists>tr. trace s' = trace s @ tr \<and> (\<forall>e \<in> set tr. isPut e \<or> isSleep e)
           \<and> length (filter isPut tr) \<le> 4)"
  using uploadAttempts_events[of "analysisEndpoint w" _ _ p 0]
        count_puts[of "analysisEndpoint w" _ _ p 0]
  by (auto simp: uploadPayload_def split: if_splits sum.splits prod.splits)
     (metis snd_conv)+


lemma key_names_distinct:
  "CODEQL_ACTION_ANALYSIS_KEY \<noteq> sentinelEnvVar"
  "CODEQL_WORKFLOW_STARTED_AT \<noteq> sentinelEnvVar"
  "CODEQL_ACTION_ANALYSIS_KEY \<noteq> CODEQL_WORKFLOW_STARTED_AT"
  "CODEQL_ACTION_ANALYSIS_KEY \<noteq> ''GITHUB_REF''"
  "CODEQL_WORKFLOW_STARTED_AT \<noteq> ''GITHUB_REF''"
  by (simp_all add: CODEQL_ACTION_ANALYSIS_KEY_def CODEQL_WORKFLOW_STARTED_AT_def
        sentinelEnvVar_def)

lemma getAnalysisKey_events:
  assumes "getAnalysisKey w s = (r, s')"
  shows "\<exists>tk. trace s' = trace s @ tk
           \<and> (\<forall>e \<in> set tk. e = GetWorkflowPath \<or> (\<exists>k. e = ExportVariable CODEQL_ACTION_ANALYSIS_KEY k))
           \<and> length (filter isLookup tk) \<le> 1
           \<and> (processEnv s' = processEnv s
               \<or> (processEnv s CODEQL_ACTION_ANALYSIS_KEY = None
                   \<and> (\<exists>k. processEnv s' = (processEnv s)(CODEQL_ACTION_ANALYSIS_KEY \<mapsto> k))))"
  using getAnalysisKey_state[OF assms]
  by (elim disjE exE conjE) (simp_all, force+)

lemma uploadFiles_run:
  assumes ns: "\<not> truthy (processEnv s sentinelEnvVar)"
  shows "\<exists>n tk tr. n \<le> length files
     \<and> trace (snd (uploadFiles w files s)) =
         trace s @ ExportVariable sentinelEnvVar sentinelEnvVar
           # map ValidateSarifFileSchema (take n files) @ tk @ tr
     \<and> (tk \<noteq> [] \<or> tr \<noteq> [] \<longrightarrow> n = length files)
     \<and> (\<forall>e \<in> set tk. e = GetWorkflowPath \<or> (\<exists>k. e = ExportVariable CODEQL_ACTION_ANALYSIS_KEY k))
     \<and> (tr = [] \<or> tr = [CombineSarifFiles files]
         \<or> (\<exists>tu. tr = CombineSarifFiles files # AddFingerprints # tu
                 \<and> (\<forall>e \<in> set tu. isPut e \<or> isSleep e) \<and> length (filter isPut tu) \<le> 4))
     \<and> (processEnv (snd (uploadFiles w files s)) = (processEnv s)(sentinelEnvVar \<mapsto> sentinelEnvVar)
         \<or> (processEnv s CODEQL_ACTION_ANALYSIS_KEY = None
             \<and> (\<exists>k. processEnv (snd (uploadFiles w files s))
                      = (processEnv s)(sentinelEnvVar \<mapsto> sentinelEnvVar,
                                       CODEQL_ACTION_ANALYSIS_KEY \<mapsto> k))))"
proof -
  let ?s1 = "s\<lparr>processEnv := (processEnv s)(sentinelEnvVar \<mapsto> sentinelEnvVar),
               trace := trace s @ [ExportVariable sentinelEnvVar sentinelEnvVar]\<rparr>"
  let ?Q = "\<lambda>res. \<exists>n tk tr. n \<le> length files
     \<and> trace (snd res) =
         trace s @ ExportVariable sentinelEnvVar sentinelEnvVar
           # map ValidateSarifFileSchema (take n files) @ tk @ tr
     \<and> (tk \<noteq> [] \<or> tr \<noteq> [] \<longrightarrow> n = length files)
     \<and> (\<forall>e \<in> set tk. e = GetWorkflowPath \<or> (\<exists>k. e = ExportVariable CODEQL_ACTION_ANALYSIS_KEY k))
     \<and> (tr = [] \<or> tr = [CombineSarifFiles files]
         \<or> (\<exists>tu. tr = CombineSarifFiles files # AddFingerprints # tu
                 \<and> (\<forall>e \<in> set tu. isPut e \<or> isSleep e) \<and> length (filter isPut tu) \<le> 4))
     \<and> (processEnv (snd res) = (processEnv s)(sentinelEnvVar \<mapsto> sentinelEnvVar)
         \<or> (processEnv s CODEQL_ACTION_ANALYSIS_KEY = None
             \<and> (\<exists>k. processEnv (snd res)
                      = (processEnv s)(sentinelEnvVar \<mapsto> sentinelEnvVar,
                                       CODEQL_ACTION_ANALYSIS_KEY \<mapsto> k))))"
  obtain rv s2 where V: "validateAll w files ?s1 = (rv, s2)"
    by (cases "validateAll w files ?s1")
  obtain rk s3 where K: "getAnalysisKey w s2 = (rk, s3)"
    by (cases "getAnalysisKey w s2")
  from validateAll_state[OF V] obtain n where n:
    "processEnv s2 = (processEnv s)(sentinelEnvVar \<mapsto> sentinelEnvVar)" "n \<le> length files"
    "trace s2 = trace s @ ExportVariable sentinelEnvVar sentinelEnvVar
                  # map ValidateSarifFileSchema (take n files)"
    "rv = Inr () \<longrightarrow> n = length files"
    by auto
  from getAnalysisKey_events[OF K] obtain tk where tk:
    "trace s3 = trace s2 @ tk"
    "\<forall>e \<in> set tk. e = GetWorkflowPath \<or> (\<exists>k. e = ExportVariable CODEQL_ACTION_ANALYSIS_KEY k)"
    "processEnv s3 = processEnv s2
     \<or> (processEnv s2 CODEQL_ACTION_ANALYSIS_KEY = None
         \<and> (\<exists>k. processEnv s3 = (processEnv s2)(CODEQL_ACTION_ANALYSIS_KEY \<mapsto> k)))"
    by blast
  have env3: "processEnv s3 = (processEnv s)(sentinelEnvVar \<mapsto> sentinelEnvVar)
         \<or> (processEnv s CODEQL_ACTION_ANALYSIS_KEY = None
             \<and> (\<exists>k. processEnv s3
                      = (processEnv s)(sentinelEnvVar \<mapsto> sentinelEnvVar,
                                       CODEQL_ACTION_ANALYSIS_KEY \<mapsto> k)))"
    using tk(3) n(1) key_names_distinct(1) by auto
  have "?Q (uploadFiles w files s)"
  proof (rule uploadFiles_exits[where Q = ?Q, OF ns V K])
    fix e
    show "?Q (Inl e, s2)"
      using n by (intro exI[of _ n] exI[of _ "[]"]) simp
  next
    fix e assume "rv = Inr ()"
    then show "?Q (Inl e, s3)"
      using n tk env3 by (intro exI[of _ n] exI[of _ tk] exI[of _ "[]"]) simp
  next
    fix e assume "rv = Inr ()"
    then show "?Q (Inl e, s3\<lparr>trace := trace s3 @ [CombineSarifFiles files]\<rparr>)"
      using n tk env3
      by (intro exI[of _ n] exI[of _ tk] exI[of _ "[CombineSarifFiles files]"]) simp
  next
    fix e assume "rv = Inr ()"
    then show "?Q (Inl e, s3\<lparr>trace := trace s3 @ [CombineSarifFiles files, AddFingerprints]\<rparr>)"
      using n tk env3
      by (intro exI[of _ n] exI[of _ tk]
            exI[of _ "[CombineSarifFiles files, AddFingerprints]"]) simp
  next
    fix p st assume rv: "rv = Inr ()"
    let ?s4 = "s3\<lparr>trace := trace s3 @ [CombineSarifFiles files, AddFingerprints]\<rparr>"
    obtain ru s5 where U: "uploadPayload w p ?s4 = (ru, s5)"
      by (cases "uploadPayload w p ?s4")
    from uploadPayload_state[OF U] obtain tu where tu:
      "processEnv s5 = processEnv s3"
      "trace s5 = trace s3 @ CombineSarifFiles files # AddFingerprints # tu"
      "\<forall>e \<in> set tu. isPut e \<or> isSleep e" "length (filter isPut tu) \<le> 4"
      by auto
    have "?Q (ru', s5)" for ru' :: "error + UploadStatusReport"
      using n tk env3 tu rv
      by (intro exI[of _ n] exI[of _ tk]
            exI[of _ "CombineSarifFiles files # AddFingerprints # tu"]) simp
    then show "?Q (case uploadPayload w p ?s4 of
                     (Inl e, s') \<Rightarrow> (Inl e, s') | (Inr x, s') \<Rightarrow> (Inr st, s'))"
      using U by (cases ru) simp_all
  qed
  then show ?thesis .
qed


lemmas example_defs =
  exampleState_def exampleEnv_def exampleWorld_def exampleFiles_def exampleServer_def
  exampleResponse_def exampleRun_def

lemmas source_defs =
  uploadFiles_def validateSarifFileSchema_def truthy_def sentinelEnvVar_def getCommitOid_def
  getRequiredEnvParam_def getRef_def matchPullRefAt_def isDigit_def getAnalysisKey_def
  getWorkflowPath_def ownerOf_def repoOf_def CODEQL_ACTION_ANALYSIS_KEY_def
  CODEQL_WORKFLOW_STARTED_AT_def combineSarifFiles_def getToolNames_def driverName_def
  setProperty_def objectKeys_def isArrayIndex_def digitsValue_def countResultsInSarif_def
  uploadPayload_def createStatusReportBase_def orEmpty_def

lemma example_upload:
  "uploadFiles (exampleWorld exampleServer) [''a.sarif'', ''b.sarif''] exampleState =
     (Inr \<lparr>raw_upload_size_bytes = 2, zipped_upload_size_bytes = 4, num_results_in_sarif = 4\<rparr>,
      \<lparr>processEnv = exampleEnv(''CODEQL_UPLOAD_SARIF'' \<mapsto> ''CODEQL_UPLOAD_SARIF'',
           ''CODEQL_ACTION_ANALYSIS_KEY'' \<mapsto> ''.github/workflows/codeql.yml:analyze''),
       trace =
         [ExportVariable ''CODEQL_UPLOAD_SARIF'' ''CODEQL_UPLOAD_SARIF'',
          ValidateSarifFileSchema ''a.sarif'', ValidateSarifFileSchema ''b.sarif'',
          GetWorkflowPath,
          ExportVariable ''CODEQL_ACTION_ANALYSIS_KEY'' ''.github/workflows/codeql.yml:analyze'',
          CombineSarifFiles [''a.sarif'', ''b.sarif''], AddFingerprints,
          PutAnalysis 0 ''octo'' (Some ''repo'')
            \<lparr>payload.commit_oid = ''abc'', payload.ref = ''refs/pull/7/head'',
             payload.analysis_key = ''.github/workflows/codeql.yml:analyze'',
             analysis_name = ''CodeQL'', sarif = ''H4sI'', payload.workflow_run_id = 42,
             checkout_uri = ''file://'', environment = None, payload.started_at = None,
             tool_names = [''ESLint'', ''CodeQL'']\<rparr>]\<rparr>)"
  by (simp add: source_defs action_defs example_defs uploadAttempts_accepted)


lemma exampleState_trace: "trace exampleState = []"
  by (simp add: exampleState_def)

lemma uploadFiles_sets_sentinel:
  assumes "\<not> truthy (processEnv s sentinelEnvVar)"
  shows "processEnv (snd (uploadFiles w files s)) sentinelEnvVar = Some sentinelEnvVar"
  using uploadFiles_run[OF assms, of files w] key_names_distinct(1) by auto

section \<open>The upload of files\<close>

text \<open>
  Claim C2. When the sentinel variable holds a non-empty value, \<^verbatim>\<open>uploadFiles\<close> throws the
  error of the duplicate upload and leaves the state as it was: no request and no other
  event. Otherwise the first thing it does is to export the sentinel variable; it exports
  it once, and the variable is set in the state that the invocation leaves, whether it
  returns or throws.
\<close>

theorem sentinel_checked_then_set:
  "(truthy (processEnv s sentinelEnvVar) \<longrightarrow>
      uploadFiles w files s =
        (Inl (Error (''Aborting upload: only one run of the codeql/analyze or ''
                     @ ''codeql/upload-sarif actions is allowed per job'')), s))
   \<and> (\<not> truthy (processEnv s sentinelEnvVar) \<longrightarrow>
        processEnv (snd (uploadFiles w files s)) sentinelEnvVar = Some sentinelEnvVar
        \<and> (\<exists>tr. trace (snd (uploadFiles w files s))
                   = trace s @ ExportVariable sentinelEnvVar sentinelEnvVar # tr
                \<and> (\<forall>v. ExportVariable sentinelEnvVar v \<notin> set tr)))"
proof (intro conjI impI)
  assume "truthy (processEnv s sentinelEnvVar)"
  then show "uploadFiles w files s =
        (Inl (Error (''Aborting upload: only one run of the codeql/analyze or ''
                     @ ''codeql/upload-sarif actions is allowed per job'')), s)"
    by (rule uploadFiles_duplicate)
next
  assume ns: "\<not> truthy (processEnv s sentinelEnvVar)"
  then show "processEnv (snd (uploadFiles w files s)) sentinelEnvVar = Some sentinelEnvVar"
    by (rule uploadFiles_sets_sentinel)
  from uploadFiles_run[OF ns, of files w] obtain n tk tr where r:
    "trace (snd (uploadFiles w files s)) =
         trace s @ ExportVariable sentinelEnvVar sentinelEnvVar
           # map ValidateSarifFileSchema (take n files) @ tk @ tr"
    "\<forall>e \<in> set tk. e = GetWorkflowPath \<or> (\<exists>k. e = ExportVariable CODEQL_ACTION_ANALYSIS_KEY k)"
    "tr = [] \<or> tr = [CombineSarifFiles files]
         \<or> (\<exists>tu. tr = CombineSarifFiles files # AddFingerprints # tu
                 \<and> (\<forall>e \<in> set tu. isPut e \<or> isSleep e) \<and> length (filter isPut tu) \<le> 4)"
    by blast
  have a: "\<forall>v. ExportVariable sentinelEnvVar v \<notin> set tk"
    using r(2) key_names_distinct(1) by auto
  have b: "\<forall>v. ExportVariable sentinelEnvVar v \<notin> set tr"
    using r(3) upload_events by (elim disjE exE conjE) auto
  show "\<exists>tr. trace (snd (uploadFiles w files s))
                   = trace s @ ExportVariable sentinelEnvVar sentinelEnvVar # tr
                \<and> (\<forall>v. ExportVariable sentinelEnvVar v \<notin> set tr)"
    using r(1) a b
    by (intro exI[of _ "map ValidateSarifFileSchema (take n files) @ tk @ tr"]) auto
qed

theorem sentinel_checked_then_set_witness:
  "uploadFiles (exampleWorld exampleServer) [''a.sarif'', ''b.sarif'']
       (exampleState\<lparr>processEnv := exampleEnv(''CODEQL_UPLOAD_SARIF'' \<mapsto> ''CODEQL_UPLOAD_SARIF'')\<rparr>) =
     (Inl (Error (''Aborting upload: only one run of the codeql/analyze or ''
                     @ ''codeql/upload-sarif actions is allowed per job'')),
      exampleState\<lparr>processEnv := exampleEnv(''CODEQL_UPLOAD_SARIF'' \<mapsto> ''CODEQL_UPLOAD_SARIF'')\<rparr>)
   \<and> processEnv (snd (uploadFiles (exampleWorld exampleServer) [''a.sarif'', ''b.sarif'']
                        exampleState)) sentinelEnvVar = Some sentinelEnvVar"
  using sentinel_checked_then_set[of
          "exampleState\<lparr>processEnv := exampleEnv(''CODEQL_UPLOAD_SARIF'' \<mapsto> ''CODEQL_UPLOAD_SARIF'')\<rparr>"
          "exampleWorld exampleServer" "[''a.sarif'', ''b.sarif'']"]
        sentinel_checked_then_set[of exampleState
          "exampleWorld exampleServer" "[''a.sarif'', ''b.sarif'']"]
  by (simp add: truthy_def sentinelEnvVar_def exampleState_def exampleEnv_def)

text \<open>
  Claim C4, as amended. In every invocation of \<^verbatim>\<open>uploadFiles\<close>, the schema validation is
  performed on the input files, one by one and in order, before the merge: when the merge
  begins, every input file has been validated, and the phases are the validations, the
  merge, then the fingerprinting, then at most 4 upload requests. When the merge does not
  begin, the only phases are validations of a leading part of the input files.
\<close>

theorem validation_before_merge:
  "(Merge \<in> set (phases (newEvents s (snd (uploadFiles w files s)))) \<longrightarrow>
      validated (newEvents s (snd (uploadFiles w files s))) = files
      \<and> (\<exists>tr. phases (newEvents s (snd (uploadFiles w files s)))
                 = replicate (length files) Validate @ Merge # tr
              \<and> (tr = [] \<or> (\<exists>k\<le>4. tr = Fingerprint # replicate k Upload))))
   \<and> (Merge \<notin> set (phases (newEvents s (snd (uploadFiles w files s)))) \<longrightarrow>
        (\<exists>n\<le>length files.
            validated (newEvents s (snd (uploadFiles w files s))) = take n files
            \<and> phases (newEvents s (snd (uploadFiles w files s))) = replicate n Validate))"
proof (cases "truthy (processEnv s sentinelEnvVar)")
  case True
  then show ?thesis
    by (simp add: uploadFiles_duplicate newEvents_def)
next
  case False
  from uploadFiles_run[OF False, of files w] obtain n tk tr where r:
    "n \<le> length files"
    "trace (snd (uploadFiles w files s)) =
         trace s @ ExportVariable sentinelEnvVar sentinelEnvVar
           # map ValidateSarifFileSchema (take n files) @ tk @ tr"
    "tk \<noteq> [] \<or> tr \<noteq> [] \<longrightarrow> n = length files"
    "\<forall>e \<in> set tk. e = GetWorkflowPath \<or> (\<exists>k. e = ExportVariable CODEQL_ACTION_ANALYSIS_KEY k)"
    "tr = [] \<or> tr = [CombineSarifFiles files]
         \<or> (\<exists>tu. tr = CombineSarifFiles files # AddFingerprints # tu
                 \<and> (\<forall>e \<in> set tu. isPut e \<or> isSleep e) \<and> length (filter isPut tu) \<le> 4)"
    by blast
  have tk: "phases tk = [] \<and> validated tk = []"
    using r(4) by (induction tk) auto
  have new: "newEvents s (snd (uploadFiles w files s)) =
               ExportVariable sentinelEnvVar sentinelEnvVar
                 # map ValidateSarifFileSchema (take n files) @ tk @ tr"
    using r(2) by (simp add: newEvents_def)
  from r(5) consider (none) "tr = []" | (merge) "tr = [CombineSarifFiles files]"
    | (upload) tu where "tr = CombineSarifFiles files # AddFingerprints # tu"
        "\<forall>e \<in> set tu. isPut e \<or> isSleep e" "length (filter isPut tu) \<le> 4"
    by blast
  then show ?thesis
  proof cases
    case none
    then show ?thesis using new tk r(1) by auto
  next
    case merge
    then show ?thesis using new tk r(1,3) by auto
  next
    case upload
    then show ?thesis using new tk r(1,3) upload_events[of tu] by auto
  qed
qed

theorem validation_before_merge_witness:
  "validated (newEvents exampleState
       (snd (uploadFiles (exampleWorld exampleServer) [''a.sarif'', ''b.sarif''] exampleState)))
     = [''a.sarif'', ''b.sarif'']"
  using validation_before_merge[of exampleState "exampleWorld exampleServer"
          "[''a.sarif'', ''b.sarif'']"]
  by (simp add: example_upload newEvents_def exampleState_trace)

text \<open>
  Claim C4 as it is stated fails on a run over two valid files: both files are validated,
  each on its own, before the merge, so the merge is not the first phase and no validation
  sees the merged document.
\<close>

theorem merge_first_counterexample:
  "phases (newEvents exampleState
       (snd (uploadFiles (exampleWorld exampleServer) [''a.sarif'', ''b.sarif''] exampleState)))
     = [Validate, Validate, Merge, Fingerprint, Upload]
   \<and> validated (newEvents exampleState
       (snd (uploadFiles (exampleWorld exampleServer) [''a.sarif'', ''b.sarif''] exampleState)))
     = [''a.sarif'', ''b.sarif'']
   \<and> phases (newEvents exampleState
       (snd (uploadFiles (exampleWorld exampleServer) [''a.sarif'', ''b.sarif''] exampleState)))
     \<noteq> [Merge, Validate, Fingerprint, Upload]"
  by (simp add: example_upload newEvents_def exampleState_trace)

section \<open>The cached identity of the job\<close>

lemma createStatusReportBase_no_ref:
  "getRef (processEnv s) = Inl err \<Longrightarrow>
   createStatusReportBase w a st t c e s = (Inl err, s)"
  by (simp add: createStatusReportBase_def action_defs)

lemma createStatusReportBase_no_key:
  "getRef (processEnv s) = Inr gr \<Longrightarrow> getAnalysisKey w s = (Inl err, s3) \<Longrightarrow>
   createStatusReportBase w a st t c e s = (Inl err, s3)"
  by (simp add: createStatusReportBase_def action_defs)

lemma createStatusReportBase_cached_start:
  "getRef (processEnv s) = Inr gr \<Longrightarrow> getAnalysisKey w s = (Inr k, s3) \<Longrightarrow>
   processEnv s3 CODEQL_WORKFLOW_STARTED_AT = Some v \<Longrightarrow>
   snd (createStatusReportBase w a st t c e s) = s3
   \<and> \<not> isl (fst (createStatusReportBase w a st t c e s))
   \<and> StatusReport.analysis_key (projr (fst (createStatusReportBase w a st t c e s))) = k
   \<and> StatusReport.started_at (projr (fst (createStatusReportBase w a st t c e s))) = v"
  by (simp add: createStatusReportBase_def action_defs)

lemma createStatusReportBase_first_start:
  "getRef (processEnv s) = Inr gr \<Longrightarrow> getAnalysisKey w s = (Inr k, s3) \<Longrightarrow>
   processEnv s3 CODEQL_WORKFLOW_STARTED_AT = None \<Longrightarrow>
   snd (createStatusReportBase w a st t c e s) =
     s3\<lparr>processEnv := (processEnv s3)(CODEQL_WORKFLOW_STARTED_AT \<mapsto> toISOString t),
        trace := trace s3 @ [ExportVariable CODEQL_WORKFLOW_STARTED_AT (toISOString t)]\<rparr>
   \<and> \<not> isl (fst (createStatusReportBase w a st t c e s))
   \<and> StatusReport.analysis_key (projr (fst (createStatusReportBase w a st t c e s))) = k
   \<and> StatusReport.started_at (projr (fst (createStatusReportBase w a st t c e s))) = toISOString t"
  by (simp add: createStatusReportBase_def action_defs)

lemma getRef_cong:
  "e' ''GITHUB_REF'' = e ''GITHUB_REF'' \<Longrightarrow> getRef e' = getRef e"
  by (simp add: getRef_def getRequiredEnvParam_def)


lemma createStatusReportBase_success:
  assumes first: "createStatusReportBase w a st t c e s = (Inr r1, s1)"
  obtains gr k s3 where
    "getRef (processEnv s) = Inr gr" "getAnalysisKey w s = (Inr k, s3)"
proof -
  obtain rk s3 where K: "getAnalysisKey w s = (rk, s3)" by (cases "getAnalysisKey w s")
  show ?thesis
  proof (cases "getRef (processEnv s)")
    case (Inl err)
    then show ?thesis using first createStatusReportBase_no_ref[OF Inl, of w a st t c e] by simp
  next
    case (Inr gr)
    show ?thesis
    proof (cases rk)
      case (Inl err)
      then show ?thesis
        using first K createStatusReportBase_no_key[OF Inr, of w err s3 a st t c e] by simp
    next
      case (Inr k)
      then show ?thesis using that \<open>getRef (processEnv s) = Inr gr\<close> K by simp
    qed
  qed
qed

text \<open>
  Claim C8. When a call of \<^verbatim>\<open>createStatusReportBase\<close> has returned a report, a second call
  in the state that the first call left returns a report with the same \<open>analysis_key\<close> and
  the same \<open>started_at\<close>, and leaves the state as it is: it reads both values from the store
  and makes no lookup. The first call leaves both values in the store and makes at most one
  lookup of the workflow path, exactly one when the analysis key was not in the store; when
  the start time was not in the store, \<open>started_at\<close> is the \<open>actionStartedAt\<close> of the first
  call.
\<close>

theorem status_report_identity_cached:
  assumes first: "createStatusReportBase w a1 st1 t1 c1 e1 s = (Inr r1, s1)"
  shows "\<not> isl (fst (createStatusReportBase w' a2 st2 t2 c2 e2 s1))
       \<and> snd (createStatusReportBase w' a2 st2 t2 c2 e2 s1) = s1
       \<and> StatusReport.analysis_key (projr (fst (createStatusReportBase w' a2 st2 t2 c2 e2 s1)))
           = StatusReport.analysis_key r1
       \<and> StatusReport.started_at (projr (fst (createStatusReportBase w' a2 st2 t2 c2 e2 s1)))
           = StatusReport.started_at r1
       \<and> processEnv s1 CODEQL_ACTION_ANALYSIS_KEY = Some (StatusReport.analysis_key r1)
       \<and> processEnv s1 CODEQL_WORKFLOW_STARTED_AT = Some (StatusReport.started_at r1)
       \<and> length (filter isLookup (trace s1)) \<le> length (filter isLookup (trace s)) + 1
       \<and> (processEnv s CODEQL_ACTION_ANALYSIS_KEY = None \<longrightarrow>
            length (filter isLookup (trace s1)) = length (filter isLookup (trace s)) + 1)
       \<and> (processEnv s CODEQL_WORKFLOW_STARTED_AT = None \<longrightarrow>
            StatusReport.started_at r1 = toISOString t1)"
proof -
  from first obtain gr k s3 where
    R: "getRef (processEnv s) = Inr gr" and K: "getAnalysisKey w s = (Inr k, s3)"
    by (rule createStatusReportBase_success)
  note d = key_names_distinct
  from getAnalysisKey_state[OF K] have k3:
    "processEnv s3 CODEQL_ACTION_ANALYSIS_KEY = Some k"
    "processEnv s3 ''GITHUB_REF'' = processEnv s ''GITHUB_REF''"
    "processEnv s3 CODEQL_WORKFLOW_STARTED_AT = processEnv s CODEQL_WORKFLOW_STARTED_AT"
    "length (filter isLookup (trace s3)) \<le> length (filter isLookup (trace s)) + 1"
    "processEnv s CODEQL_ACTION_ANALYSIS_KEY = None \<longrightarrow>
       length (filter isLookup (trace s3)) = length (filter isLookup (trace s)) + 1"
    using d by auto
  have s1: "processEnv s1 CODEQL_ACTION_ANALYSIS_KEY = Some k
          \<and> processEnv s1 ''GITHUB_REF'' = processEnv s ''GITHUB_REF''
          \<and> processEnv s1 CODEQL_WORKFLOW_STARTED_AT = Some (StatusReport.started_at r1)
          \<and> StatusReport.analysis_key r1 = k
          \<and> filter isLookup (trace s1) = filter isLookup (trace s3)
          \<and> (processEnv s CODEQL_WORKFLOW_STARTED_AT = None \<longrightarrow>
               StatusReport.started_at r1 = toISOString t1)"
  proof (cases "processEnv s3 CODEQL_WORKFLOW_STARTED_AT")
    case None
    from createStatusReportBase_first_start[OF R K None, of a1 st1 t1 c1 e1] first
    show ?thesis using k3 d by auto
  next
    case (Some v)
    from createStatusReportBase_cached_start[OF R K Some, of a1 st1 t1 c1 e1] first
    show ?thesis using k3 Some d by auto
  qed
  then have R2: "getRef (processEnv s1) = Inr gr"
    using R getRef_cong[of "processEnv s1" "processEnv s"] by simp
  have K2: "getAnalysisKey w' s1 = (Inr k, s1)"
    using s1 by (simp add: getAnalysisKey_cached)
  from s1 have S2: "processEnv s1 CODEQL_WORKFLOW_STARTED_AT = Some (StatusReport.started_at r1)"
    by simp
  from createStatusReportBase_cached_start[OF R2 K2 S2, of a2 st2 t2 c2 e2] s1 k3
  show ?thesis by simp
qed

lemma example_report:
  "createStatusReportBase (exampleWorld exampleServer) ''upload-sarif'' starting
       (Date ''2020-06-01T10:00:00.000Z'') None None exampleState =
     (Inr exampleReport,
      \<lparr>processEnv = exampleEnv(
           ''CODEQL_ACTION_ANALYSIS_KEY'' \<mapsto> ''.github/workflows/codeql.yml:analyze'',
           ''CODEQL_WORKFLOW_STARTED_AT'' \<mapsto> ''2020-06-01T10:00:00.000Z''),
       trace =
         [GetWorkflowPath,
          ExportVariable ''CODEQL_ACTION_ANALYSIS_KEY'' ''.github/workflows/codeql.yml:analyze'',
          ExportVariable ''CODEQL_WORKFLOW_STARTED_AT'' ''2020-06-01T10:00:00.000Z'']\<rparr>)"
  by (simp add: source_defs action_defs example_defs exampleReport_def)

theorem status_report_identity_cached_witness:
  "StatusReport.analysis_key (projr (fst (createStatusReportBase (exampleWorld exampleServer)
       ''upload-sarif'' success (Date ''2020-06-01T10:00:07.000Z'') None None
       (snd (createStatusReportBase (exampleWorld exampleServer) ''upload-sarif'' starting
              (Date ''2020-06-01T10:00:00.000Z'') None None exampleState)))))
     = ''.github/workflows/codeql.yml:analyze''
   \<and> StatusReport.started_at (projr (fst (createStatusReportBase (exampleWorld exampleServer)
       ''upload-sarif'' success (Date ''2020-06-01T10:00:07.000Z'') None None
       (snd (createStatusReportBase (exampleWorld exampleServer) ''upload-sarif'' starting
              (Date ''2020-06-01T10:00:00.000Z'') None None exampleState)))))
     = ''2020-06-01T10:00:00.000Z''"
  using status_report_identity_cached[OF example_report,
          of "exampleWorld exampleServer" "''upload-sarif''" success
             "Date ''2020-06-01T10:00:07.000Z''" None None]
  by (simp add: example_report exampleReport_def)


section \<open>Stored values are kept\<close>

lemma getAnalysisKey_keeps:
  "processEnv s k = Some v \<Longrightarrow> processEnv (snd (getAnalysisKey w s)) k = Some v"
  using getAnalysisKey_state[of w s "fst (getAnalysisKey w s)" "snd (getAnalysisKey w s)"]
  by auto

lemma createStatusReportBase_keeps:
  assumes "processEnv s k = Some v"
  shows "processEnv (snd (createStatusReportBase w a st t c e s)) k = Some v"
proof -
  obtain rk s3 where K: "getAnalysisKey w s = (rk, s3)" by (cases "getAnalysisKey w s")
  have k3: "processEnv s3 k = Some v"
    using getAnalysisKey_keeps[OF assms, of w] K by simp
  show ?thesis
  proof (cases "getRef (processEnv s)")
    case (Inl err)
    then show ?thesis using assms by (simp add: createStatusReportBase_no_ref)
  next
    case (Inr gr)
    show ?thesis
    proof (cases rk)
      case (Inl err)
      then show ?thesis
        using K k3 createStatusReportBase_no_key[OF Inr, of w err s3 a st t c e] by simp
    next
      case Key: (Inr key)
      show ?thesis
      proof (cases "processEnv s3 CODEQL_WORKFLOW_STARTED_AT")
        case None
        then have "k \<noteq> CODEQL_WORKFLOW_STARTED_AT" using k3 by auto
        then show ?thesis
          using createStatusReportBase_first_start[OF Inr, of w key s3 a st t c e] K Key None k3
          by simp
      next
        case (Some v')
        then show ?thesis
          using createStatusReportBase_cached_start[OF Inr, of w key s3 v' a st t c e] K Key k3
          by simp
      qed
    qed
  qed
qed

lemma sendStatusReport_env:
  "processEnv (snd (sendStatusReport w rep ign s)) = processEnv s"
  by (simp add: sendStatusReport_def action_defs split: sum.splits)

lemma uploadFiles_keeps:
  assumes "processEnv s k = Some v" and "k = sentinelEnvVar \<longrightarrow> v \<noteq> []"
  shows "processEnv (snd (uploadFiles w files s)) k = Some v"
proof (cases "truthy (processEnv s sentinelEnvVar)")
  case True
  then show ?thesis using assms by (simp add: uploadFiles_duplicate)
next
  case False
  then have ks: "k \<noteq> sentinelEnvVar" using assms by (auto simp: truthy_def)
  from uploadFiles_run[OF False, of files w] have
    "processEnv (snd (uploadFiles w files s)) = (processEnv s)(sentinelEnvVar \<mapsto> sentinelEnvVar)
     \<or> (processEnv s CODEQL_ACTION_ANALYSIS_KEY = None
         \<and> (\<exists>k'. processEnv (snd (uploadFiles w files s))
                  = (processEnv s)(sentinelEnvVar \<mapsto> sentinelEnvVar,
                                   CODEQL_ACTION_ANALYSIS_KEY \<mapsto> k')))"
    by blast
  then show ?thesis
  proof (elim disjE conjE exE)
    assume "processEnv (snd (uploadFiles w files s))
              = (processEnv s)(sentinelEnvVar \<mapsto> sentinelEnvVar)"
    then show ?thesis using ks assms(1) by simp
  next
    fix k'
    assume n: "processEnv s CODEQL_ACTION_ANALYSIS_KEY = None"
      and e: "processEnv (snd (uploadFiles w files s))
                = (processEnv s)(sentinelEnvVar \<mapsto> sentinelEnvVar,
                                 CODEQL_ACTION_ANALYSIS_KEY \<mapsto> k')"
    from n assms(1) have "k \<noteq> CODEQL_ACTION_ANALYSIS_KEY" by auto
    then show ?thesis using e ks assms(1) by simp
  qed
qed

text \<open>
  Claim C6, as amended. Every operation keeps every stored value, except that the upload
  replaces an empty value of the sentinel variable: the cached analysis key and the cached
  workflow start time are written only when they are absent, and the sentinel only when it
  is absent or empty.
\<close>

theorem stored_values_kept:
  assumes "processEnv s k = Some v" and "k = sentinelEnvVar \<longrightarrow> v \<noteq> []"
  shows "processEnv (snd (getAnalysisKey w s)) k = Some v
       \<and> processEnv (snd (createStatusReportBase w a st t c e s)) k = Some v
       \<and> processEnv (snd (sendStatusReport w rep ign s)) k = Some v
       \<and> processEnv (snd (uploadPayload w p s)) k = Some v
       \<and> processEnv (snd (uploadFiles w files s)) k = Some v"
  using assms getAnalysisKey_keeps[of s k v w] createStatusReportBase_keeps[of s k v w a st t c e]
    uploadFiles_keeps[of s k v w files]
    uploadPayload_state[of w p s "fst (uploadPayload w p s)" "snd (uploadPayload w p s)"]
  by (simp add: sendStatusReport_env)

theorem stored_values_kept_witness:
  "processEnv (snd (uploadFiles (exampleWorld exampleServer) [''a.sarif'', ''b.sarif'']
       (exampleState\<lparr>processEnv := exampleEnv(''CODEQL_ACTION_ANALYSIS_KEY'' \<mapsto> ''w.yml:job'')\<rparr>)))
     ''CODEQL_ACTION_ANALYSIS_KEY'' = Some ''w.yml:job''
   \<and> processEnv (snd (createStatusReportBase (exampleWorld exampleServer) ''upload-sarif''
       starting (Date ''2020-06-01T10:00:07.000Z'') None None
       (exampleState\<lparr>processEnv := exampleEnv(''CODEQL_WORKFLOW_STARTED_AT'' \<mapsto> ''2020-06-01T10:00:00.000Z'')\<rparr>)))
     ''CODEQL_WORKFLOW_STARTED_AT'' = Some ''2020-06-01T10:00:00.000Z''"
  using stored_values_kept[of
          "exampleState\<lparr>processEnv := exampleEnv(''CODEQL_ACTION_ANALYSIS_KEY'' \<mapsto> ''w.yml:job'')\<rparr>"
          "''CODEQL_ACTION_ANALYSIS_KEY''" "''w.yml:job''" "exampleWorld exampleServer"
          _ _ _ _ _ _ _ _ "[''a.sarif'', ''b.sarif'']"]
        stored_values_kept[of
          "exampleState\<lparr>processEnv := exampleEnv(''CODEQL_WORKFLOW_STARTED_AT'' \<mapsto> ''2020-06-01T10:00:00.000Z'')\<rparr>"
          "''CODEQL_WORKFLOW_STARTED_AT''" "''2020-06-01T10:00:00.000Z''"
          "exampleWorld exampleServer" "''upload-sarif''" starting
          "Date ''2020-06-01T10:00:07.000Z''" None None]
  by (simp add: sentinelEnvVar_def)

text \<open>
  Claim C6 as it is stated fails in a store where the sentinel variable is set to the empty
  string: the check of the upload reads the empty string as not set, and the export replaces
  the stored value.
\<close>

theorem empty_sentinel_overwritten_counterexample:
  "processEnv (exampleState\<lparr>processEnv := exampleEnv(''CODEQL_UPLOAD_SARIF'' \<mapsto> [])\<rparr>)
     ''CODEQL_UPLOAD_SARIF'' = Some []
   \<and> processEnv (snd (uploadFiles (exampleWorld exampleServer) [''a.sarif'', ''b.sarif'']
       (exampleState\<lparr>processEnv := exampleEnv(''CODEQL_UPLOAD_SARIF'' \<mapsto> [])\<rparr>)))
     ''CODEQL_UPLOAD_SARIF'' = Some ''CODEQL_UPLOAD_SARIF''"
  using uploadFiles_sets_sentinel[of
          "exampleState\<lparr>processEnv := exampleEnv(''CODEQL_UPLOAD_SARIF'' \<mapsto> [])\<rparr>"
          "exampleWorld exampleServer" "[''a.sarif'', ''b.sarif'']"]
  by (simp add: sentinelEnvVar_def truthy_def)

section \<open>The ref in reports and payloads\<close>

text \<open>
  The \<open>ref\<close> of every status report, and of the payload of every upload request, is the
  value that \<^verbatim>\<open>getRef\<close> returns in the store of the invocation.
\<close>

lemma report_ref:
  "createStatusReportBase w a st t c e s = (Inr r, s') \<Longrightarrow>
   getRef (processEnv s) = Inr (StatusReport.ref r)"
  by (auto simp: createStatusReportBase_def action_defs split: sum.splits option.splits prod.splits)


lemma uploadAttempts_payload:
  "\<forall>e \<in> set (snd (uploadAttempts server owner repo p attempt)).
     isPut e \<longrightarrow> (\<exists>i. e = PutAnalysis i owner repo p)"
  by (cases "attempt \<le> 3") (simp_all add: uploadAttempts_one_request uploadAttempts_after_loop)

lemma uploadPayload_payload:
  assumes "uploadPayload w p s = (r, s')"
  shows "\<forall>e \<in> set (newEvents s s'). \<forall>i ow re q. e = PutAnalysis i ow re q \<longrightarrow> q = p"
proof (cases "processEnv s ''TEST_MODE'' = Some ''true''")
  case True
  then show ?thesis using assms by (auto simp: uploadPayload_def newEvents_def)
next
  case False
  show ?thesis
  proof (cases "getRequiredEnvParam (processEnv s) ''GITHUB_REPOSITORY''")
    case (Inl e)
    then show ?thesis using assms False by (auto simp: uploadPayload_def newEvents_def)
  next
    case (Inr nwo)
    then have "newEvents s s' = snd (uploadAttempts (analysisEndpoint w) (ownerOf nwo) (repoOf nwo) p 0)"
      using assms False by (auto simp: uploadPayload_def newEvents_def split: prod.splits)
    then show ?thesis
      using uploadAttempts_payload[of "analysisEndpoint w" "ownerOf nwo" "repoOf nwo" p 0]
      by fastforce
  qed
qed

lemma getRef_sentinel:
  "getRef ((processEnv s)(sentinelEnvVar \<mapsto> sentinelEnvVar)) = getRef (processEnv s)"
  by (rule getRef_cong) (simp add: sentinelEnvVar_def)

lemma payload_ref:
  assumes "PutAnalysis i ow re p \<in> set (newEvents s (snd (uploadFiles w files s)))"
  shows "getRef (processEnv s) = Inr (payload.ref p)"
proof (cases "truthy (processEnv s sentinelEnvVar)")
  case True
  then show ?thesis using assms by (simp add: uploadFiles_duplicate newEvents_def)
next
  case False
  let ?s1 = "s\<lparr>processEnv := (processEnv s)(sentinelEnvVar \<mapsto> sentinelEnvVar),
               trace := trace s @ [ExportVariable sentinelEnvVar sentinelEnvVar]\<rparr>"
  let ?Q = "\<lambda>res. \<forall>i ow re p. PutAnalysis i ow re p \<in> set (newEvents s (snd res)) \<longrightarrow>
                getRef (processEnv s) = Inr (payload.ref p)"
  obtain rv s2 where V: "validateAll w files ?s1 = (rv, s2)"
    by (cases "validateAll w files ?s1")
  obtain rk s3 where K: "getAnalysisKey w s2 = (rk, s3)"
    by (cases "getAnalysisKey w s2")
  from validateAll_state[OF V] obtain n where n:
    "processEnv s2 = (processEnv s)(sentinelEnvVar \<mapsto> sentinelEnvVar)"
    "trace s2 = trace s @ ExportVariable sentinelEnvVar sentinelEnvVar
                  # map ValidateSarifFileSchema (take n files)"
    by auto
  from getAnalysisKey_events[OF K] obtain tk where tk:
    "trace s3 = trace s2 @ tk"
    "\<forall>e \<in> set tk. e = GetWorkflowPath \<or> (\<exists>k. e = ExportVariable CODEQL_ACTION_ANALYSIS_KEY k)"
    by blast
  have "?Q (uploadFiles w files s)"
  proof (rule uploadFiles_exits[where Q = ?Q, OF False V K])
    fix e show "?Q (Inl e, s2)" using n by (auto simp: newEvents_def)
  next
    fix e show "?Q (Inl e, s3)" using n tk by (auto simp: newEvents_def)
  next
    fix e show "?Q (Inl e, s3\<lparr>trace := trace s3 @ [CombineSarifFiles files]\<rparr>)"
      using n tk by (auto simp: newEvents_def)
  next
    fix e
    show "?Q (Inl e, s3\<lparr>trace := trace s3 @ [CombineSarifFiles files, AddFingerprints]\<rparr>)"
      using n tk by (auto simp: newEvents_def)
  next
    fix p :: payload and st :: UploadStatusReport
    assume g: "getRef (processEnv s2) = Inr (payload.ref p)"
    let ?s4 = "s3\<lparr>trace := trace s3 @ [CombineSarifFiles files, AddFingerprints]\<rparr>"
    obtain ru s5 where U: "uploadPayload w p ?s4 = (ru, s5)"
      by (cases "uploadPayload w p ?s4")
    from uploadPayload_state[OF U] obtain tu where tu: "trace s5 = trace ?s4 @ tu" by auto
    from uploadPayload_payload[OF U] tu have
      pl: "\<forall>e \<in> set tu. \<forall>i ow re q. e = PutAnalysis i ow re q \<longrightarrow> q = p"
      by (simp add: newEvents_def)
    have "getRef (processEnv s) = Inr (payload.ref p)"
      using g n(1) getRef_sentinel[of s] by simp
    then have "?Q (ru', s5)" for ru' :: "error + UploadStatusReport"
      using n tk tu pl by (auto simp: newEvents_def)
    then show "?Q (case uploadPayload w p ?s4 of
                     (Inl e, s') \<Rightarrow> (Inl e, s') | (Inr x, s') \<Rightarrow> (Inr st, s'))"
      using U by (cases ru) simp_all
  qed
  then show ?thesis using assms by blast
qed


end
